theory Spec2Isabelle
  imports Main
begin

section \<open>The Azure SQL Database linked-service resource of a data factory\<close>

text \<open>
  A shallow embedding of the three handlers of
  \<^verbatim>\<open>data_factory_linked_service_azure_sql_database_resource.go\<close>, the create-or-update,
  read and delete operations of the resource, under the names they have in the file.

  The handlers mutate the framework's \<^verbatim>\<open>*schema.ResourceData\<close> and talk to a remote
  API. Both effects are explicit: a handler takes the resource data and the list of
  remote calls made so far, and returns its Go \<^verbatim>\<open>error\<close> (\<open>None\<close> is \<^verbatim>\<open>nil\<close>), the
  resource data as it leaves it, and the extended list of calls.
\<close>

subsection \<open>Errors\<close>

text \<open>
  Errors made by a collaborator (the API client, the identifier parser) are opaque to
  the handlers; they are represented by their message. \<^verbatim>\<open>fmt.Errorf(format, args...)\<close>
  is kept as the format with its arguments, unrendered. A nil dereference is the
  value \<open>Panic\<close>.
\<close>

datatype fmt_arg = Str string | Verr "string option"

datatype error =
    External string
  | Errorf string "fmt_arg list"
  | ImportAsExistsError string string
  | Panic

text \<open>
  The formats of the errors the handlers make, and the resource type named in the
  import error.
\<close>

definition fmtCheckingPresence :: string where
  "fmtCheckingPresence =
     ''checking for presence of existing Data Factory Linked Service AzureSQLDatabase %q (Data Factory %q / Resource Group %q): %+v''"

definition fmtCreatingUpdating :: string where
  "fmtCreatingUpdating =
     ''Error creating/updating Data Factory Linked Service AzureSQLDatabase %q (Data Factory %q / Resource Group %q): %+v''"

definition fmtRetrieving :: string where
  "fmtRetrieving =
     ''Error retrieving Data Factory Linked Service AzureSQLDatabase %q (Data Factory %q / Resource Group %q): %+v''"

definition fmtCannotRead :: string where
  "fmtCannotRead =
     ''Cannot read Data Factory Linked Service AzureSQLDatabase %q (Data Factory %q / Resource Group %q): %+v''"

definition fmtClassifying :: string where
  "fmtClassifying =
     ''Error classifiying Data Factory Linked Service AzureSQLDatabase %q (Data Factory %q / Resource Group %q): Expected: %q Received: %q''"

definition fmtDeleting :: string where
  "fmtDeleting =
     ''deleting Data Factory Linked Service AzureSQLDatabase %q (Data Factory %q / Resource Group %q): %+v''"

definition resourceTypeName :: string where
  "resourceTypeName =
     ''azurerm_data_factory_linked_service_azure_sql_database''"

subsection \<open>The resource data\<close>

record KeyVaultPassword =
  linked_service_name :: string
  secret_name :: string

text \<open>
  One field per attribute of the schema (lines 37-151), with the type the schema gives
  it, and the two pieces of framework state the handlers use: the identifier
  (\<^verbatim>\<open>d.Id()\<close>, \<^verbatim>\<open>d.SetId\<close>) and \<^verbatim>\<open>d.IsNewResource()\<close>. \<^verbatim>\<open>d.Get\<close> is field selection and
  \<^verbatim>\<open>d.Set\<close> is field update.
\<close>

record ResourceData =
  rd_Id :: string
  IsNewResource :: bool
  name :: string
  data_factory_name :: string
  resource_group_name :: string
  connection_string :: string
  description :: string
  key_vault_password :: "KeyVaultPassword list"
  use_managed_identity :: bool
  service_principal_id :: string
  service_principal_key :: string
  tenant_id :: string
  integration_runtime_name :: string
  parameters :: "string \<rightharpoonup> string"
  annotations :: "string list"
  additional_properties :: "string \<rightharpoonup> string"

text \<open>
  \<^verbatim>\<open>d.Set(key, p)\<close> with a \<^verbatim>\<open>*string\<close> stores the string pointed to, and the zero
  value when the pointer is nil; with a nil map it stores the empty map.
\<close>

definition deref_string :: "string option \<Rightarrow> string" where
  "deref_string p = (case p of None \<Rightarrow> [] | Some s \<Rightarrow> s)"

definition deref_map :: "(string \<rightharpoonup> string) option \<Rightarrow> (string \<rightharpoonup> string)" where
  "deref_map p = (case p of None \<Rightarrow> Map.empty | Some m \<Rightarrow> m)"

subsection \<open>The API's data\<close>

text \<open>
  The structures of the API client library as the handlers build and read them. A Go
  pointer, interface or map that may be nil is an \<open>option\<close>. The status code of an
  \<^verbatim>\<open>autorest.Response\<close> is \<open>None\<close> when it holds no HTTP response. Values of type
  \<^verbatim>\<open>interface{}\<close> are strings, the element type the schema declares.
\<close>

type_synonym Response = "nat option"

record SecureString =
  Value :: "string option"
  secType :: string

definition TypeSecureString :: string where
  "TypeSecureString = ''SecureString''"

definition TypeAzureSQLDatabase :: string where
  "TypeAzureSQLDatabase = ''AzureSqlDatabase''"

record LinkedServiceReference =
  lsrType :: "string option"
  lsrReferenceName :: "string option"

record AzureKeyVaultSecretReference =
  SecretName :: string
  Store :: "LinkedServiceReference option"

datatype SecretBase =
    SecureStringSecret SecureString
  | AzureKeyVaultSecret AzureKeyVaultSecretReference
  | OtherSecret

fun AsAzureKeyVaultSecretReference ::
  "SecretBase \<Rightarrow> AzureKeyVaultSecretReference option \<times> bool" where
  "AsAzureKeyVaultSecretReference (AzureKeyVaultSecret r) = (Some r, True)"
| "AsAzureKeyVaultSecretReference _ = (None, False)"

record IntegrationRuntimeReference =
  irType :: "string option"
  ReferenceName :: "string option"

record ParameterSpecification =
  psType :: string
  DefaultValue :: string

record AzureSQLDatabaseLinkedServiceTypeProperties =
  ConnectionString :: "SecureString option"
  ServicePrincipalID :: "string option"
  ServicePrincipalKey :: "SecureString option"
  Tenant :: "string option"
  Password :: "SecretBase option"

record AzureSQLDatabaseLinkedService =
  AdditionalProperties :: "(string \<rightharpoonup> string) option"
  ConnectVia :: "IntegrationRuntimeReference option"
  Description :: "string option"
  Parameters :: "(string \<rightharpoonup> ParameterSpecification) option"
  Annotations :: "string list option"
  TypeProperties :: "AzureSQLDatabaseLinkedServiceTypeProperties option"
  lsType :: string

datatype BasicLinkedService =
    AzureSQLDatabase AzureSQLDatabaseLinkedService
  | OtherLinkedService

fun AsAzureSQLDatabaseLinkedService ::
  "BasicLinkedService \<Rightarrow> AzureSQLDatabaseLinkedService option \<times> bool" where
  "AsAzureSQLDatabaseLinkedService (AzureSQLDatabase s) = (Some s, True)"
| "AsAzureSQLDatabaseLinkedService OtherLinkedService = (None, False)"

record LinkedServiceResource =
  Response :: Response
  ID :: "string option"
  Name :: "string option"
  Type :: "string option"
  Properties :: "BasicLinkedService option"

record LinkedServiceId =
  ResourceGroup :: string
  FactoryName :: string
  idName :: string

subsection \<open>The remote API\<close>

text \<open>
  A remote call is recorded with its arguments: resource group, factory name, linked
  service name, then the body and the match header where the call has them.
  The client answers a call from the calls made before it, so the remote side may
  change with every call.
\<close>

datatype call =
    GetCall string string string string
  | CreateOrUpdateCall string string string LinkedServiceResource string
  | DeleteCall string string string

record LinkedServiceClient =
  Get :: "call list \<Rightarrow> string \<Rightarrow> string \<Rightarrow> string \<Rightarrow> string
            \<Rightarrow> LinkedServiceResource \<times> string option"
  CreateOrUpdate :: "call list \<Rightarrow> string \<Rightarrow> string \<Rightarrow> string \<Rightarrow> LinkedServiceResource
            \<Rightarrow> string \<Rightarrow> LinkedServiceResource \<times> string option"
  Delete :: "call list \<Rightarrow> string \<Rightarrow> string \<Rightarrow> string \<Rightarrow> Response \<times> string option"

subsection \<open>Functions of the repository that the file calls\<close>

text \<open>
  The handlers call helpers of the same repository that live in other files:
  \<^verbatim>\<open>utils.ResponseWasNotFound\<close>, \<^verbatim>\<open>parse.LinkedServiceID\<close> and the expand and flatten
  functions of the data factory package. They are parameters of the model, passed
  together the way the Go code receives \<^verbatim>\<open>meta\<close>.
\<close>

record deps =
  ResponseWasNotFound :: "Response \<Rightarrow> bool"
  LinkedServiceID :: "string \<Rightarrow> string + LinkedServiceId"
  expandAzureKeyVaultPassword ::
    "KeyVaultPassword list \<Rightarrow> AzureKeyVaultSecretReference option"
  flattenAzureKeyVaultPassword ::
    "AzureKeyVaultSecretReference option \<Rightarrow> KeyVaultPassword list"
  expandDataFactoryParameters ::
    "(string \<rightharpoonup> string) \<Rightarrow> (string \<rightharpoonup> ParameterSpecification) option"
  flattenDataFactoryParameters ::
    "(string \<rightharpoonup> ParameterSpecification) option \<Rightarrow> (string \<rightharpoonup> string)"
  flattenDataFactoryAnnotations :: "string list option \<Rightarrow> string list"
  expandDataFactoryLinkedServiceIntegrationRuntime ::
    "string \<Rightarrow> IntegrationRuntimeReference option"

subsection \<open>Read (lines 249-319)\<close>

text \<open>
  Lines 269-318: the attributes written from a response that was retrieved. The three
  \<^verbatim>\<open>d.Set\<close> calls whose error is inspected (lines 296, 303, 308) store values of
  the attribute's own type here, for which \<^verbatim>\<open>d.Set\<close> returns no error. The method call
  on a nil \<^verbatim>\<open>resp.Properties\<close>, \<^verbatim>\<open>*resp.Type\<close> on a nil pointer and the field reads through
  a nil \<^verbatim>\<open>sql\<close> or a nil type-properties pointer are the four places that panic.
\<close>

definition resourceDataFactoryLinkedServiceAzureSQLDatabaseRead_attributes ::
  "deps \<Rightarrow> LinkedServiceId \<Rightarrow> LinkedServiceResource \<Rightarrow> ResourceData
     \<Rightarrow> error option \<times> ResourceData" where
  "resourceDataFactoryLinkedServiceAzureSQLDatabaseRead_attributes meta lsid resp d0 =
    (let d = d0\<lparr>name := deref_string (Name resp)\<rparr>;
         d = d\<lparr>resource_group_name := ResourceGroup lsid\<rparr>;
         d = d\<lparr>data_factory_name := FactoryName lsid\<rparr>
     in case Properties resp of
          None \<Rightarrow> (Some Panic, d)
        | Some props \<Rightarrow>
           (let (sql, ok) = AsAzureSQLDatabaseLinkedService props
            in if \<not> ok then
                 (case Type resp of
                    None \<Rightarrow> (Some Panic, d)
                  | Some t \<Rightarrow>
                     (Some (Errorf fmtClassifying
                        [Str (idName lsid), Str (FactoryName lsid), Str (ResourceGroup lsid),
                         Str TypeAzureSQLDatabase, Str t]), d))
               else
                 (case sql of
                    None \<Rightarrow> (Some Panic, d)
                  | Some sql \<Rightarrow>
                     (case TypeProperties sql of
                        None \<Rightarrow> (Some Panic, d)
                      | Some tp \<Rightarrow>
                         (let d = (case Tenant tp of
                                     None \<Rightarrow> d
                                   | Some t \<Rightarrow> d\<lparr>tenant_id := t\<rparr>);
                              d = (case ServicePrincipalID tp of
                                     Some s \<Rightarrow>
                                       d\<lparr>service_principal_id := s,
                                         use_managed_identity := False\<rparr>
                                   | None \<Rightarrow> d\<lparr>use_managed_identity := True\<rparr>);
                              d = d\<lparr>additional_properties :=
                                      deref_map (AdditionalProperties sql)\<rparr>;
                              d = d\<lparr>description := deref_string (Description sql)\<rparr>;
                              d = (case Password tp of
                                     None \<Rightarrow> d
                                   | Some password \<Rightarrow>
                                      (let (keyVaultPassword, ok) =
                                             AsAzureKeyVaultSecretReference password
                                       in if ok then
                                            d\<lparr>key_vault_password :=
                                                flattenAzureKeyVaultPassword meta
                                                  keyVaultPassword\<rparr>
                                          else d));
                              d = d\<lparr>annotations :=
                                      flattenDataFactoryAnnotations meta (Annotations sql)\<rparr>;
                              d = d\<lparr>parameters :=
                                      flattenDataFactoryParameters meta (Parameters sql)\<rparr>;
                              d = (case ConnectVia sql of
                                     None \<Rightarrow> d
                                   | Some connectVia \<Rightarrow>
                                      (case ReferenceName connectVia of
                                         None \<Rightarrow> d
                                       | Some n \<Rightarrow> d\<lparr>integration_runtime_name := n\<rparr>))
                          in (None, d))))))"

definition resourceDataFactoryLinkedServiceAzureSQLDatabaseRead ::
  "deps \<Rightarrow> LinkedServiceClient \<Rightarrow> ResourceData \<Rightarrow> call list
     \<Rightarrow> error option \<times> ResourceData \<times> call list" where
  "resourceDataFactoryLinkedServiceAzureSQLDatabaseRead meta client d log =
    (case LinkedServiceID meta (rd_Id d) of
       Inl err \<Rightarrow> (Some (External err), d, log)
     | Inr lsid \<Rightarrow>
        (let (resp, err) =
               Get client log (ResourceGroup lsid) (FactoryName lsid) (idName lsid) [];
             log1 = log @ [GetCall (ResourceGroup lsid) (FactoryName lsid) (idName lsid) []]
         in if err \<noteq> None then
              (if ResponseWasNotFound meta (Response resp)
               then (None, d\<lparr>rd_Id := []\<rparr>, log1)
               else (Some (Errorf fmtRetrieving
                       [Str (idName lsid), Str (FactoryName lsid), Str (ResourceGroup lsid),
                        Verr err]), d, log1))
            else
              (let (e, d1) = resourceDataFactoryLinkedServiceAzureSQLDatabaseRead_attributes meta lsid resp d in (e, d1, log1))))"

subsection \<open>Delete (lines 321-339)\<close>

definition resourceDataFactoryLinkedServiceAzureSQLDatabaseDelete ::
  "deps \<Rightarrow> LinkedServiceClient \<Rightarrow> ResourceData \<Rightarrow> call list
     \<Rightarrow> error option \<times> ResourceData \<times> call list" where
  "resourceDataFactoryLinkedServiceAzureSQLDatabaseDelete meta client d log =
    (case LinkedServiceID meta (rd_Id d) of
       Inl err \<Rightarrow> (Some (External err), d, log)
     | Inr lsid \<Rightarrow>
        (let (response, err) =
               Delete client log (ResourceGroup lsid) (FactoryName lsid) (idName lsid);
             log1 = log @ [DeleteCall (ResourceGroup lsid) (FactoryName lsid) (idName lsid)]
         in if err \<noteq> None \<and> \<not> ResponseWasNotFound meta response then
              (Some (Errorf fmtDeleting
                 [Str (idName lsid), Str (FactoryName lsid), Str (ResourceGroup lsid), Verr err]),
               d, log1)
            else (None, d, log1)))"

subsection \<open>CreateUpdate (lines 155-247)\<close>

text \<open>
  \<^verbatim>\<open>d.GetOk(key)\<close> reports whether the attribute differs from the zero value of its type:
  the empty string, the empty list, the empty map.

  Lines 177-202: the type properties of the request.
\<close>

definition sqlDatabaseProperties ::
  "deps \<Rightarrow> ResourceData \<Rightarrow> AzureSQLDatabaseLinkedServiceTypeProperties" where
  "sqlDatabaseProperties meta d =
    (let p = \<lparr>ConnectionString = None, ServicePrincipalID = None,
               ServicePrincipalKey = None, Tenant = None, Password = None\<rparr>;
         p = (if connection_string d \<noteq> [] then
                p\<lparr>ConnectionString :=
                    Some \<lparr>Value = Some (connection_string d), secType = TypeSecureString\<rparr>\<rparr>
              else p);
         p = (if use_managed_identity d then p\<lparr>Tenant := Some (tenant_id d)\<rparr>
              else
                (let secureString =
                       \<lparr>Value = Some (service_principal_key d), secType = TypeSecureString\<rparr>
                 in p\<lparr>ServicePrincipalID := Some (service_principal_id d),
                      Tenant := Some (tenant_id d),
                      ServicePrincipalKey := Some secureString\<rparr>));
         p = (if key_vault_password d \<noteq> [] then
                p\<lparr>Password :=
                    map_option AzureKeyVaultSecret
                      (expandAzureKeyVaultPassword meta (key_vault_password d))\<rparr>
              else p)
     in p)"

text \<open>Lines 204-225: the linked service of the request.\<close>

definition azureSQLDatabaseLinkedService ::
  "deps \<Rightarrow> ResourceData \<Rightarrow> AzureSQLDatabaseLinkedService" where
  "azureSQLDatabaseLinkedService meta d =
    (let ls = \<lparr>AdditionalProperties = None, ConnectVia = None,
                Description = Some (description d), Parameters = None,
                Annotations = None,
                TypeProperties = Some (sqlDatabaseProperties meta d),
                lsType = TypeAzureSQLDatabase\<rparr>;
         ls = (if parameters d \<noteq> Map.empty then
                 ls\<lparr>Parameters := expandDataFactoryParameters meta (parameters d)\<rparr>
               else ls);
         ls = (if integration_runtime_name d \<noteq> [] then
                 ls\<lparr>ConnectVia :=
                      expandDataFactoryLinkedServiceIntegrationRuntime meta
                        (integration_runtime_name d)\<rparr>
               else ls);
         ls = (if additional_properties d \<noteq> Map.empty then
                 ls\<lparr>AdditionalProperties := Some (additional_properties d)\<rparr>
               else ls);
         ls = (if annotations d \<noteq> [] then
                 ls\<lparr>Annotations := Some (annotations d)\<rparr>
               else ls)
     in ls)"

text \<open>Lines 227-229: the request body.\<close>

definition linkedService :: "deps \<Rightarrow> ResourceData \<Rightarrow> LinkedServiceResource" where
  "linkedService meta d =
    \<lparr>Response = None, ID = None, Name = None, Type = None,
     Properties = Some (AzureSQLDatabase (azureSQLDatabaseLinkedService meta d))\<rparr>"

text \<open>Lines 164-175: the check that a new resource does not exist yet.\<close>

definition checkExisting ::
  "deps \<Rightarrow> LinkedServiceClient \<Rightarrow> ResourceData \<Rightarrow> call list
     \<Rightarrow> error option \<times> call list" where
  "checkExisting meta client d log =
    (let name = name d;
         dataFactoryName = data_factory_name d;
         resourceGroup = resource_group_name d
     in if IsNewResource d then
          (let (existing, err) = Get client log resourceGroup dataFactoryName name [];
               log1 = log @ [GetCall resourceGroup dataFactoryName name []]
           in if err \<noteq> None \<and> \<not> ResponseWasNotFound meta (Response existing) then
                (Some (Errorf fmtCheckingPresence
                   [Str name, Str dataFactoryName, Str resourceGroup, Verr err]), log1)
              else
                (case ID existing of
                   None \<Rightarrow> (None, log1)
                 | Some i \<Rightarrow>
                    if i \<noteq> [] then
                      (Some (ImportAsExistsError resourceTypeName i), log1)
                    else (None, log1)))
        else (None, log))"

text \<open>
  Lines 155-244: everything before the final statement; on success the identifier
  the service returned is stored.
\<close>

definition resourceDataFactoryLinkedServiceAzureSQLDatabaseCreateUpdate_body ::
  "deps \<Rightarrow> LinkedServiceClient \<Rightarrow> ResourceData \<Rightarrow> call list
     \<Rightarrow> error option \<times> ResourceData \<times> call list" where
  "resourceDataFactoryLinkedServiceAzureSQLDatabaseCreateUpdate_body meta client d log =
    (let name = name d;
         dataFactoryName = data_factory_name d;
         resourceGroup = resource_group_name d;
         (e, log1) = checkExisting meta client d log
     in case e of
          Some err \<Rightarrow> (Some err, d, log1)
        | None \<Rightarrow>
           (let body = linkedService meta d;
                (r, err) = CreateOrUpdate client log1 resourceGroup dataFactoryName name body [];
                log2 = log1 @ [CreateOrUpdateCall resourceGroup dataFactoryName name body []]
            in if err \<noteq> None then
                 (Some (Errorf fmtCreatingUpdating
                    [Str name, Str dataFactoryName, Str resourceGroup, Verr err]), d, log2)
               else
                 (let (resp, err) = Get client log2 resourceGroup dataFactoryName name [];
                      log3 = log2 @ [GetCall resourceGroup dataFactoryName name []]
                  in if err \<noteq> None then
                       (Some (Errorf fmtRetrieving
                          [Str name, Str dataFactoryName, Str resourceGroup, Verr err]),
                        d, log3)
                     else
                       (case ID resp of
                          None \<Rightarrow>
                           (Some (Errorf fmtCannotRead
                              [Str name, Str dataFactoryName, Str resourceGroup, Verr err]),
                            d, log3)
                        | Some i \<Rightarrow> (None, d\<lparr>rd_Id := i\<rparr>, log3)))))"

text \<open>Line 246: the handler ends by running Read on the resource data.\<close>

definition resourceDataFactoryLinkedServiceAzureSQLDatabaseCreateUpdate ::
  "deps \<Rightarrow> LinkedServiceClient \<Rightarrow> ResourceData \<Rightarrow> call list
     \<Rightarrow> error option \<times> ResourceData \<times> call list" where
  "resourceDataFactoryLinkedServiceAzureSQLDatabaseCreateUpdate meta client d log =
    (let (e, d1, log1) = resourceDataFactoryLinkedServiceAzureSQLDatabaseCreateUpdate_body meta client d log
     in case e of
          Some err \<Rightarrow> (Some err, d1, log1)
        | None \<Rightarrow> resourceDataFactoryLinkedServiceAzureSQLDatabaseRead meta client d1 log1)"

subsection \<open>Vocabulary of the properties\<close>

text \<open>The triple a remote call addresses.\<close>

fun addressed :: "call \<Rightarrow> string \<times> string \<times> string" where
  "addressed (GetCall rg f n im) = (rg, f, n)"
| "addressed (CreateOrUpdateCall rg f n b im) = (rg, f, n)"
| "addressed (DeleteCall rg f n) = (rg, f, n)"

text \<open>The body a remote call sends, if it sends one.\<close>

fun requestBody :: "call \<Rightarrow> LinkedServiceResource option" where
  "requestBody (GetCall rg f n im) = None"
| "requestBody (CreateOrUpdateCall rg f n b im) = Some b"
| "requestBody (DeleteCall rg f n) = None"

text \<open>
  An error mentions a resource group, a factory and a name when it was made by
  \<^verbatim>\<open>fmt.Errorf\<close> with the three among the arguments its format renders.
\<close>

fun mentions :: "error \<Rightarrow> string \<Rightarrow> string \<Rightarrow> string \<Rightarrow> bool" where
  "mentions (Errorf fmt args) rg f n =
     (Str n \<in> set args \<and> Str f \<in> set args \<and> Str rg \<in> set args)"
| "mentions (External m) rg f n = False"
| "mentions (ImportAsExistsError r i) rg f n = False"
| "mentions Panic rg f n = False"

subsection \<open>A concrete configuration and concrete collaborators\<close>

text \<open>
  The instances at which the theorems below are exercised: helpers that map the
  fields one to one, an identifier parser that knows one identifier, and remote
  services. \<open>fakeClient\<close> keeps what was last written under a triple;
  \<open>failingAt k\<close> is \<open>fakeClient\<close> except that the call made after \<open>k\<close> earlier calls
  fails with status 500; \<open>garbledClient\<close> answers every Get with status 200, an
  identifier and a decoding error; \<open>namelessClient\<close> answers every Get without error
  and without identifier; \<open>vanishingClient\<close> shows a linked service only to the Get
  that immediately follows a create-or-update.
\<close>

definition testId :: string where
  "testId = ''/subscriptions/s/resourceGroups/rg/providers/Microsoft.DataFactory/factories/df/linkedservices/ls''"

definition testLinkedServiceID :: "string \<Rightarrow> string + LinkedServiceId" where
  "testLinkedServiceID s =
     (if s = testId then Inr \<lparr>ResourceGroup = ''rg'', FactoryName = ''df'', idName = ''ls''\<rparr>
      else Inl ''parsing Linked Service ID'')"

definition testMeta :: deps where
  "testMeta =
    \<lparr>ResponseWasNotFound = (\<lambda>r. r = Some 404),
     LinkedServiceID = testLinkedServiceID,
     expandAzureKeyVaultPassword =
       (\<lambda>input. case input of
            [] \<Rightarrow> None
          | config # rest \<Rightarrow>
              Some \<lparr>SecretName = secret_name config,
                    Store = Some \<lparr>lsrType = Some ''LinkedServiceReference'',
                                  lsrReferenceName = Some (linked_service_name config)\<rparr>\<rparr>),
     flattenAzureKeyVaultPassword =
       (\<lambda>r. case r of
            None \<Rightarrow> []
          | Some ref \<Rightarrow>
              [\<lparr>linked_service_name =
                   (case Store ref of
                      None \<Rightarrow> []
                    | Some store \<Rightarrow> deref_string (lsrReferenceName store)),
                 secret_name = SecretName ref\<rparr>]),
     expandDataFactoryParameters =
       (\<lambda>input. Some (\<lambda>k. map_option
                               (\<lambda>v. \<lparr>psType = ''String'', DefaultValue = v\<rparr>) (input k))),
     flattenDataFactoryParameters =
       (\<lambda>input. case input of
            None \<Rightarrow> Map.empty
          | Some m \<Rightarrow> (\<lambda>k. map_option DefaultValue (m k))),
     flattenDataFactoryAnnotations =
       (\<lambda>input. case input of None \<Rightarrow> [] | Some l \<Rightarrow> l),
     expandDataFactoryLinkedServiceIntegrationRuntime =
       (\<lambda>n. Some \<lparr>irType = Some ''IntegrationRuntimeReference'',
                    ReferenceName = Some n\<rparr>)\<rparr>"

definition testConfig :: ResourceData where
  "testConfig =
    \<lparr>rd_Id = [], IsNewResource = True, name = ''ls'', data_factory_name = ''df'',
     resource_group_name = ''rg'', connection_string = ''Server=x;Database=y'',
     description = ''sales'',
     key_vault_password = [\<lparr>linked_service_name = ''kv'', secret_name = ''pw''\<rparr>],
     use_managed_identity = False, service_principal_id = ''sp'',
     service_principal_key = ''key'', tenant_id = ''t'',
     integration_runtime_name = ''ir'', parameters = [''p'' \<mapsto> ''v''],
     annotations = [''a''], additional_properties = [''k'' \<mapsto> ''w'']\<rparr>"

fun lastWritten ::
  "call list \<Rightarrow> string \<Rightarrow> string \<Rightarrow> string \<Rightarrow> LinkedServiceResource option" where
  "lastWritten [] rg f n = None"
| "lastWritten (GetCall rg' f' n' im # cs) rg f n = lastWritten cs rg f n"
| "lastWritten (CreateOrUpdateCall rg' f' n' b im # cs) rg f n =
     (if rg' = rg \<and> f' = f \<and> n' = n then Some b else lastWritten cs rg f n)"
| "lastWritten (DeleteCall rg' f' n' # cs) rg f n =
     (if rg' = rg \<and> f' = f \<and> n' = n then None else lastWritten cs rg f n)"

text \<open>The calls made so far when \<open>testConfig\<close> has been written once.\<close>

definition writtenLog :: "call list" where
  "writtenLog =
     [CreateOrUpdateCall ''rg'' ''df'' ''ls'' (linkedService testMeta testConfig) []]"

definition found :: "LinkedServiceResource \<Rightarrow> string \<Rightarrow> LinkedServiceResource" where
  "found b n =
     b\<lparr>Response := Some 200, ID := Some testId, Name := Some n,
       Type := Some ''Microsoft.DataFactory/factories/linkedservices''\<rparr>"

definition notFound :: LinkedServiceResource where
  "notFound = \<lparr>Response = Some 404, ID = None, Name = None, Type = None, Properties = None\<rparr>"

definition fakeClient :: LinkedServiceClient where
  "fakeClient =
    \<lparr>Get = (\<lambda>log rg f n im.
        case lastWritten (rev log) rg f n of
          None \<Rightarrow> (notFound, Some ''ResourceNotFound'')
        | Some b \<Rightarrow> (found b n, None)),
     CreateOrUpdate = (\<lambda>log rg f n b im. (found b n, None)),
     Delete = (\<lambda>log rg f n.
        case lastWritten (rev log) rg f n of
          None \<Rightarrow> (Some 404, Some ''ResourceNotFound'')
        | Some b \<Rightarrow> (Some 200, None))\<rparr>"

definition serverError :: LinkedServiceResource where
  "serverError = notFound\<lparr>Response := Some 500\<rparr>"

definition failingAt :: "nat \<Rightarrow> LinkedServiceClient" where
  "failingAt k =
    \<lparr>Get = (\<lambda>log rg f n im.
        if length log = k then (serverError, Some ''InternalServerError'')
        else Get fakeClient log rg f n im),
     CreateOrUpdate = (\<lambda>log rg f n b im.
        if length log = k then (serverError, Some ''InternalServerError'')
        else CreateOrUpdate fakeClient log rg f n b im),
     Delete = (\<lambda>log rg f n.
        if length log = k then (Some 500, Some ''InternalServerError'')
        else Delete fakeClient log rg f n)\<rparr>"

definition garbledClient :: LinkedServiceClient where
  "garbledClient =
    \<lparr>Get = (\<lambda>log rg f n im.
        (notFound\<lparr>Response := Some 200, ID := Some testId\<rparr>,
         Some ''json: cannot unmarshal'')),
     CreateOrUpdate = (\<lambda>log rg f n b im. (found b n, None)),
     Delete = (\<lambda>log rg f n. (Some 200, None))\<rparr>"

definition namelessClient :: LinkedServiceClient where
  "namelessClient =
    \<lparr>Get = (\<lambda>log rg f n im. (notFound\<lparr>Response := Some 200\<rparr>, None)),
     CreateOrUpdate = (\<lambda>log rg f n b im. (found b n, None)),
     Delete = (\<lambda>log rg f n. (Some 200, None))\<rparr>"

fun lastIsWrite :: "call list \<Rightarrow> bool" where
  "lastIsWrite [] = False"
| "lastIsWrite (CreateOrUpdateCall rg f n b im # cs) = True"
| "lastIsWrite (c # cs) = False"

definition vanishingClient :: LinkedServiceClient where
  "vanishingClient =
    \<lparr>Get = (\<lambda>log rg f n im.
        if lastIsWrite (rev log) then (found notFound n, None)
        else (notFound, Some ''ResourceNotFound'')),
     CreateOrUpdate = (\<lambda>log rg f n b im. (found b n, None)),
     Delete = (\<lambda>log rg f n. (Some 404, Some ''ResourceNotFound''))\<rparr>"

text \<open>
  The resource data of an import: the identifier is known and nothing else.
\<close>

definition blankData :: ResourceData where
  "blankData =
    \<lparr>rd_Id = testId, IsNewResource = False, name = [], data_factory_name = [],
     resource_group_name = [], connection_string = [], description = [],
     key_vault_password = [], use_managed_identity = False, service_principal_id = [],
     service_principal_key = [], tenant_id = [], integration_runtime_name = [],
     parameters = Map.empty, annotations = [], additional_properties = Map.empty\<rparr>"

text \<open>
  A service that does not distinguish the resource group \<open>RG\<close> from \<open>rg\<close> and
  returns identifiers with the lower-case spelling.
\<close>

definition foldGroup :: "string \<Rightarrow> string" where
  "foldGroup rg = (if rg = ''RG'' then ''rg'' else rg)"

fun foldCall :: "call \<Rightarrow> call" where
  "foldCall (GetCall rg f n im) = GetCall (foldGroup rg) f n im"
| "foldCall (CreateOrUpdateCall rg f n b im) = CreateOrUpdateCall (foldGroup rg) f n b im"
| "foldCall (DeleteCall rg f n) = DeleteCall (foldGroup rg) f n"

definition caseFoldingClient :: LinkedServiceClient where
  "caseFoldingClient =
    \<lparr>Get = (\<lambda>log rg f n im. Get fakeClient (map foldCall log) (foldGroup rg) f n im),
     CreateOrUpdate = (\<lambda>log rg f n b im.
        CreateOrUpdate fakeClient (map foldCall log) (foldGroup rg) f n b im),
     Delete = (\<lambda>log rg f n. Delete fakeClient (map foldCall log) (foldGroup rg) f n)\<rparr>"

definition upperCaseConfig :: ResourceData where
  "upperCaseConfig = testConfig\<lparr>resource_group_name := ''RG''\<rparr>"

text \<open>
  A service whose Get returns an Azure SQL Database linked service without type
  properties.
\<close>

definition bareLinkedService :: AzureSQLDatabaseLinkedService where
  "bareLinkedService =
    \<lparr>AdditionalProperties = None, ConnectVia = None, Description = None,
     Parameters = None, Annotations = None, TypeProperties = None,
     lsType = TypeAzureSQLDatabase\<rparr>"

definition bareResponse :: LinkedServiceResource where
  "bareResponse =
    \<lparr>Response = Some 200, ID = Some testId, Name = Some ''ls'',
     Type = Some ''Microsoft.DataFactory/factories/linkedservices'',
     Properties = Some (AzureSQLDatabase bareLinkedService)\<rparr>"

definition bareClient :: LinkedServiceClient where
  "bareClient =
    \<lparr>Get = (\<lambda>log rg f n im. (bareResponse, None)),
     CreateOrUpdate = (\<lambda>log rg f n b im. (found b n, None)),
     Delete = (\<lambda>log rg f n. (Some 200, None))\<rparr>"

section \<open>Properties\<close>

subsection \<open>Read, step by step\<close>

text \<open>
  What Read stores when the response classifies as an Azure SQL Database linked
  service that carries its type properties.
\<close>

lemma attributes_classified:
  assumes "Properties resp = Some (AzureSQLDatabase sql)" and "TypeProperties sql = Some tp"
  shows "resourceDataFactoryLinkedServiceAzureSQLDatabaseRead_attributes meta lsid resp d =
    (None,
     d\<lparr>name := deref_string (Name resp),
       resource_group_name := ResourceGroup lsid,
       data_factory_name := FactoryName lsid,
       tenant_id := (case Tenant tp of None \<Rightarrow> tenant_id d | Some t \<Rightarrow> t),
       service_principal_id :=
         (case ServicePrincipalID tp of None \<Rightarrow> service_principal_id d | Some s \<Rightarrow> s),
       use_managed_identity := (ServicePrincipalID tp = None),
       additional_properties := deref_map (AdditionalProperties sql),
       description := deref_string (Description sql),
       key_vault_password :=
         (case Password tp of
            None \<Rightarrow> key_vault_password d
          | Some password \<Rightarrow>
              if snd (AsAzureKeyVaultSecretReference password)
              then flattenAzureKeyVaultPassword meta
                     (fst (AsAzureKeyVaultSecretReference password))
              else key_vault_password d),
       annotations := flattenDataFactoryAnnotations meta (Annotations sql),
       parameters := flattenDataFactoryParameters meta (Parameters sql),
       integration_runtime_name :=
         (case ConnectVia sql of
            None \<Rightarrow> integration_runtime_name d
          | Some connectVia \<Rightarrow>
              (case ReferenceName connectVia of
                 None \<Rightarrow> integration_runtime_name d
               | Some n \<Rightarrow> n))\<rparr>)"
  using assms
  by (simp add: resourceDataFactoryLinkedServiceAzureSQLDatabaseRead_attributes_def Let_def split: option.split prod.split)

text \<open>Whatever the response, three fields are out of reach of lines 269-318.\<close>

lemma attributes_frame:
  "connection_string (snd (resourceDataFactoryLinkedServiceAzureSQLDatabaseRead_attributes meta lsid resp d)) = connection_string d \<and>
   service_principal_key (snd (resourceDataFactoryLinkedServiceAzureSQLDatabaseRead_attributes meta lsid resp d)) =
     service_principal_key d \<and>
   rd_Id (snd (resourceDataFactoryLinkedServiceAzureSQLDatabaseRead_attributes meta lsid resp d)) = rd_Id d"
  by (simp add: resourceDataFactoryLinkedServiceAzureSQLDatabaseRead_attributes_def Let_def split: option.split prod.split)

lemma read_parse_error:
  "LinkedServiceID meta (rd_Id d) = Inl m \<Longrightarrow>
     resourceDataFactoryLinkedServiceAzureSQLDatabaseRead meta client d log = (Some (External m), d, log)"
  by (simp add: resourceDataFactoryLinkedServiceAzureSQLDatabaseRead_def)

lemma read_parsed:
  "LinkedServiceID meta (rd_Id d) = Inr lsid \<Longrightarrow>
   Get client log (ResourceGroup lsid) (FactoryName lsid) (idName lsid) [] = (resp, err) \<Longrightarrow>
   resourceDataFactoryLinkedServiceAzureSQLDatabaseRead meta client d log =
     (if err \<noteq> None then
        (if ResponseWasNotFound meta (Response resp) then None
         else Some (Errorf fmtRetrieving
                [Str (idName lsid), Str (FactoryName lsid), Str (ResourceGroup lsid), Verr err]),
         if ResponseWasNotFound meta (Response resp) then d\<lparr>rd_Id := []\<rparr> else d,
         log @ [GetCall (ResourceGroup lsid) (FactoryName lsid) (idName lsid) []])
      else
        (fst (resourceDataFactoryLinkedServiceAzureSQLDatabaseRead_attributes meta lsid resp d),
         snd (resourceDataFactoryLinkedServiceAzureSQLDatabaseRead_attributes meta lsid resp d),
         log @ [GetCall (ResourceGroup lsid) (FactoryName lsid) (idName lsid) []]))"
  by (simp add: resourceDataFactoryLinkedServiceAzureSQLDatabaseRead_def Let_def split: prod.split)

subsection \<open>CreateUpdate, step by step\<close>

lemma check_not_new:
  "\<not> IsNewResource d \<Longrightarrow> checkExisting meta client d log = (None, log)"
  by (simp add: checkExisting_def)

lemma check_new:
  "IsNewResource d \<Longrightarrow>
   Get client log (resource_group_name d) (data_factory_name d) (name d) [] = (existing, err) \<Longrightarrow>
   checkExisting meta client d log =
     (if err \<noteq> None \<and> \<not> ResponseWasNotFound meta (Response existing) then
        Some (Errorf fmtCheckingPresence
                [Str (name d), Str (data_factory_name d), Str (resource_group_name d), Verr err])
      else
        (case ID existing of
           None \<Rightarrow> None
         | Some i \<Rightarrow>
             if i \<noteq> [] then
               Some (ImportAsExistsError
                 resourceTypeName i)
             else None),
      log @ [GetCall (resource_group_name d) (data_factory_name d) (name d) []])"
  by (simp add: checkExisting_def Let_def split: option.split)

lemma check_log:
  "snd (checkExisting meta client d log) =
     (if IsNewResource d
      then log @ [GetCall (resource_group_name d) (data_factory_name d) (name d) []]
      else log)"
  by (simp add: checkExisting_def Let_def split: option.split prod.split)

lemma body_refused:
  "checkExisting meta client d log = (Some e, log1) \<Longrightarrow>
     resourceDataFactoryLinkedServiceAzureSQLDatabaseCreateUpdate_body meta client d log = (Some e, d, log1)"
  by (simp add: resourceDataFactoryLinkedServiceAzureSQLDatabaseCreateUpdate_body_def)

lemma body_checked:
  assumes "checkExisting meta client d log = (None, log1)"
    and "CreateOrUpdate client log1 (resource_group_name d) (data_factory_name d) (name d)
           (linkedService meta d) [] = (r, werr)"
    and "Get client
           (log1 @ [CreateOrUpdateCall (resource_group_name d) (data_factory_name d) (name d)
                      (linkedService meta d) []])
           (resource_group_name d) (data_factory_name d) (name d) [] = (resp, gerr)"
  shows "resourceDataFactoryLinkedServiceAzureSQLDatabaseCreateUpdate_body meta client d log =
    (if werr \<noteq> None then
       (Some (Errorf fmtCreatingUpdating
          [Str (name d), Str (data_factory_name d), Str (resource_group_name d), Verr werr]),
        d,
        log1 @ [CreateOrUpdateCall (resource_group_name d) (data_factory_name d) (name d)
                  (linkedService meta d) []])
     else if gerr \<noteq> None then
       (Some (Errorf fmtRetrieving
          [Str (name d), Str (data_factory_name d), Str (resource_group_name d), Verr gerr]),
        d,
        log1 @ [CreateOrUpdateCall (resource_group_name d) (data_factory_name d) (name d)
                  (linkedService meta d) [],
                GetCall (resource_group_name d) (data_factory_name d) (name d) []])
     else
       (case ID resp of
          None \<Rightarrow>
            Some (Errorf fmtCannotRead
              [Str (name d), Str (data_factory_name d), Str (resource_group_name d), Verr None])
        | Some i \<Rightarrow> None,
        case ID resp of None \<Rightarrow> d | Some i \<Rightarrow> d\<lparr>rd_Id := i\<rparr>,
        log1 @ [CreateOrUpdateCall (resource_group_name d) (data_factory_name d) (name d)
                  (linkedService meta d) [],
                GetCall (resource_group_name d) (data_factory_name d) (name d) []]))"
  using assms
  by (simp add: resourceDataFactoryLinkedServiceAzureSQLDatabaseCreateUpdate_body_def Let_def split: option.split)

lemma createUpdate_failed:
  "fst (resourceDataFactoryLinkedServiceAzureSQLDatabaseCreateUpdate_body meta client d log) = Some e \<Longrightarrow>
     resourceDataFactoryLinkedServiceAzureSQLDatabaseCreateUpdate meta client d log = resourceDataFactoryLinkedServiceAzureSQLDatabaseCreateUpdate_body meta client d log"
  by (cases "resourceDataFactoryLinkedServiceAzureSQLDatabaseCreateUpdate_body meta client d log")
     (simp add: resourceDataFactoryLinkedServiceAzureSQLDatabaseCreateUpdate_def)

lemma createUpdate_read:
  "fst (resourceDataFactoryLinkedServiceAzureSQLDatabaseCreateUpdate_body meta client d log) = None \<Longrightarrow>
     resourceDataFactoryLinkedServiceAzureSQLDatabaseCreateUpdate meta client d log =
       resourceDataFactoryLinkedServiceAzureSQLDatabaseRead meta client
         (fst (snd (resourceDataFactoryLinkedServiceAzureSQLDatabaseCreateUpdate_body meta client d log)))
         (snd (snd (resourceDataFactoryLinkedServiceAzureSQLDatabaseCreateUpdate_body meta client d log)))"
  by (cases "resourceDataFactoryLinkedServiceAzureSQLDatabaseCreateUpdate_body meta client d log")
     (simp add: resourceDataFactoryLinkedServiceAzureSQLDatabaseCreateUpdate_def)

lemma read_log:
  "snd (snd (resourceDataFactoryLinkedServiceAzureSQLDatabaseRead meta client d log)) =
     (case LinkedServiceID meta (rd_Id d) of
        Inl m \<Rightarrow> log
      | Inr lsid \<Rightarrow>
          log @ [GetCall (ResourceGroup lsid) (FactoryName lsid) (idName lsid) []])"
proof (cases "LinkedServiceID meta (rd_Id d)")
  case (Inl m)
  then show ?thesis by (simp add: read_parse_error)
next
  case (Inr lsid)
  obtain resp err where
    g: "Get client log (ResourceGroup lsid) (FactoryName lsid) (idName lsid) [] = (resp, err)"
    by (cases "Get client log (ResourceGroup lsid) (FactoryName lsid) (idName lsid) []")
  show ?thesis by (simp add: read_parsed [OF Inr g] Inr)
qed

lemma delete_parse_error:
  "LinkedServiceID meta (rd_Id d) = Inl m \<Longrightarrow>
     resourceDataFactoryLinkedServiceAzureSQLDatabaseDelete meta client d log = (Some (External m), d, log)"
  by (simp add: resourceDataFactoryLinkedServiceAzureSQLDatabaseDelete_def)

lemma delete_parsed:
  "LinkedServiceID meta (rd_Id d) = Inr lsid \<Longrightarrow>
   Delete client log (ResourceGroup lsid) (FactoryName lsid) (idName lsid) = (response, err) \<Longrightarrow>
   resourceDataFactoryLinkedServiceAzureSQLDatabaseDelete meta client d log =
     (if err \<noteq> None \<and> \<not> ResponseWasNotFound meta response then
        Some (Errorf fmtDeleting
                [Str (idName lsid), Str (FactoryName lsid), Str (ResourceGroup lsid), Verr err])
      else None,
      d, log @ [DeleteCall (ResourceGroup lsid) (FactoryName lsid) (idName lsid)])"
  by (simp add: resourceDataFactoryLinkedServiceAzureSQLDatabaseDelete_def)

lemma delete_log:
  "snd (snd (resourceDataFactoryLinkedServiceAzureSQLDatabaseDelete meta client d log)) =
     (case LinkedServiceID meta (rd_Id d) of
        Inl m \<Rightarrow> log
      | Inr lsid \<Rightarrow>
          log @ [DeleteCall (ResourceGroup lsid) (FactoryName lsid) (idName lsid)])"
proof (cases "LinkedServiceID meta (rd_Id d)")
  case (Inl m)
  then show ?thesis by (simp add: delete_parse_error)
next
  case (Inr lsid)
  obtain response err where
    g: "Delete client log (ResourceGroup lsid) (FactoryName lsid) (idName lsid) = (response, err)"
    by (cases "Delete client log (ResourceGroup lsid) (FactoryName lsid) (idName lsid)")
  show ?thesis by (simp add: delete_parsed [OF Inr g] Inr)
qed

lemma body_calls:
  "\<exists>calls. snd (snd (resourceDataFactoryLinkedServiceAzureSQLDatabaseCreateUpdate_body meta client d log)) = log @ calls \<and>
     (\<forall>c \<in> set calls.
        c = GetCall (resource_group_name d) (data_factory_name d) (name d) [] \<or>
        c = CreateOrUpdateCall (resource_group_name d) (data_factory_name d) (name d)
              (linkedService meta d) [])"
proof -
  let ?G = "GetCall (resource_group_name d) (data_factory_name d) (name d) []"
  let ?W = "CreateOrUpdateCall (resource_group_name d) (data_factory_name d) (name d)
              (linkedService meta d) []"
  obtain e log1 where c: "checkExisting meta client d log = (e, log1)"
    by (cases "checkExisting meta client d log")
  have "log1 = (if IsNewResource d then log @ [?G] else log)"
    using check_log [of meta client d log] c by simp
  then have l: "log1 = log @ [] \<or> log1 = log @ [?G]"
    by (simp split: if_splits)
  have "snd (snd (resourceDataFactoryLinkedServiceAzureSQLDatabaseCreateUpdate_body meta client d log)) = log1 @ [] \<or>
        snd (snd (resourceDataFactoryLinkedServiceAzureSQLDatabaseCreateUpdate_body meta client d log)) = log1 @ [?W] \<or>
        snd (snd (resourceDataFactoryLinkedServiceAzureSQLDatabaseCreateUpdate_body meta client d log)) = log1 @ [?W, ?G]"
  proof (cases e)
    case (Some err)
    with c have "resourceDataFactoryLinkedServiceAzureSQLDatabaseCreateUpdate_body meta client d log = (Some err, d, log1)"
      by (simp add: body_refused)
    then show ?thesis by simp
  next
    case None
    obtain r werr where
      w: "CreateOrUpdate client log1 (resource_group_name d) (data_factory_name d) (name d)
            (linkedService meta d) [] = (r, werr)"
      by (cases "CreateOrUpdate client log1 (resource_group_name d) (data_factory_name d)
            (name d) (linkedService meta d) []")
    obtain resp gerr where
      g: "Get client (log1 @ [?W])
            (resource_group_name d) (data_factory_name d) (name d) [] = (resp, gerr)"
      by (cases "Get client (log1 @ [?W])
            (resource_group_name d) (data_factory_name d) (name d) []")
    from c None have c': "checkExisting meta client d log = (None, log1)" by simp
    show ?thesis
      by (simp add: body_checked [OF c' w g])
  qed
  with l show ?thesis
    by (elim disjE) simp_all
qed

lemma createUpdate_calls:
  "\<exists>calls. snd (snd (resourceDataFactoryLinkedServiceAzureSQLDatabaseCreateUpdate meta client d log)) = log @ calls \<and>
     (\<forall>c \<in> set calls.
        requestBody c = None \<or> requestBody c = Some (linkedService meta d))"
proof -
  let ?body = "resourceDataFactoryLinkedServiceAzureSQLDatabaseCreateUpdate_body meta client d log"
  obtain calls where
    b: "snd (snd ?body) = log @ calls"
    and a: "\<forall>c \<in> set calls.
        c = GetCall (resource_group_name d) (data_factory_name d) (name d) [] \<or>
        c = CreateOrUpdateCall (resource_group_name d) (data_factory_name d) (name d)
              (linkedService meta d) []"
    using body_calls [of meta client d log] by blast
  have r: "\<forall>c \<in> set calls.
        requestBody c = None \<or> requestBody c = Some (linkedService meta d)"
  proof
    fix c
    assume "c \<in> set calls"
    with a have "c = GetCall (resource_group_name d) (data_factory_name d) (name d) [] \<or>
        c = CreateOrUpdateCall (resource_group_name d) (data_factory_name d) (name d)
              (linkedService meta d) []"
      by blast
    then show "requestBody c = None \<or> requestBody c = Some (linkedService meta d)"
      by (elim disjE) simp_all
  qed
  show ?thesis
  proof (cases "fst ?body")
    case (Some e)
    then have "resourceDataFactoryLinkedServiceAzureSQLDatabaseCreateUpdate meta client d log = ?body"
      by (rule createUpdate_failed)
    then have "snd (snd (resourceDataFactoryLinkedServiceAzureSQLDatabaseCreateUpdate meta client d log)) = log @ calls"
      using b by simp
    with r show ?thesis by blast
  next
    case None
    then have u: "resourceDataFactoryLinkedServiceAzureSQLDatabaseCreateUpdate meta client d log =
        resourceDataFactoryLinkedServiceAzureSQLDatabaseRead meta client (fst (snd ?body)) (snd (snd ?body))"
      by (rule createUpdate_read)
    show ?thesis
    proof (cases "LinkedServiceID meta (rd_Id (fst (snd ?body)))")
      case (Inl m)
      then have "snd (snd (resourceDataFactoryLinkedServiceAzureSQLDatabaseCreateUpdate meta client d log)) = log @ calls"
        by (simp add: u read_log b)
      with r show ?thesis by blast
    next
      case (Inr lsid)
      then have "snd (snd (resourceDataFactoryLinkedServiceAzureSQLDatabaseCreateUpdate meta client d log)) =
          log @ (calls @ [GetCall (ResourceGroup lsid) (FactoryName lsid) (idName lsid) []])"
        by (simp add: u read_log b)
      moreover have "\<forall>c \<in> set (calls @
            [GetCall (ResourceGroup lsid) (FactoryName lsid) (idName lsid) []]).
          requestBody c = None \<or> requestBody c = Some (linkedService meta d)"
        using r by simp
      ultimately show ?thesis by blast
    qed
  qed
qed

lemma createUpdate_starts_with_check:
  "\<exists>rest. snd (snd (resourceDataFactoryLinkedServiceAzureSQLDatabaseCreateUpdate meta client d log)) =
     snd (checkExisting meta client d log) @ rest"
proof -
  let ?body = "resourceDataFactoryLinkedServiceAzureSQLDatabaseCreateUpdate_body meta client d log"
  let ?G = "GetCall (resource_group_name d) (data_factory_name d) (name d) []"
  let ?W = "CreateOrUpdateCall (resource_group_name d) (data_factory_name d) (name d)
              (linkedService meta d) []"
  obtain e log1 where c: "checkExisting meta client d log = (e, log1)"
    by (cases "checkExisting meta client d log")
  have b: "\<exists>w. snd (snd ?body) = log1 @ w"
  proof (cases e)
    case (Some err)
    with c have "?body = (Some err, d, log1)"
      by (simp add: body_refused)
    then show ?thesis by simp
  next
    case None
    obtain r werr where
      w: "CreateOrUpdate client log1 (resource_group_name d) (data_factory_name d) (name d)
            (linkedService meta d) [] = (r, werr)"
      by (cases "CreateOrUpdate client log1 (resource_group_name d) (data_factory_name d)
            (name d) (linkedService meta d) []")
    obtain resp gerr where
      g: "Get client (log1 @ [?W])
            (resource_group_name d) (data_factory_name d) (name d) [] = (resp, gerr)"
      by (cases "Get client (log1 @ [?W])
            (resource_group_name d) (data_factory_name d) (name d) []")
    from c None have c': "checkExisting meta client d log = (None, log1)" by simp
    show ?thesis
      by (simp add: body_checked [OF c' w g])
  qed
  then obtain w where bw: "snd (snd ?body) = log1 @ w" by blast
  show ?thesis
  proof (cases "fst ?body")
    case (Some e')
    then have "resourceDataFactoryLinkedServiceAzureSQLDatabaseCreateUpdate meta client d log = ?body"
      by (rule createUpdate_failed)
    then show ?thesis using bw c by simp
  next
    case None
    then have u: "resourceDataFactoryLinkedServiceAzureSQLDatabaseCreateUpdate meta client d log =
        resourceDataFactoryLinkedServiceAzureSQLDatabaseRead meta client (fst (snd ?body)) (snd (snd ?body))"
      by (rule createUpdate_read)
    show ?thesis
      by (cases "LinkedServiceID meta (rd_Id (fst (snd ?body)))")
         (simp_all add: u read_log bw c)
  qed
qed

subsection \<open>A write that the service echoes\<close>

text \<open>
  When the existence check passes, the write succeeds, the re-read returns an
  identifier that parses to the configured triple, and Read's Get returns the
  properties that were sent under the configured name, CreateUpdate ends with the
  resource data it started from, the identifier apart. The helpers enter through
  what they do at this configuration: flattening undoes expanding.
\<close>

lemma createUpdate_echo:
  assumes kv: "\<And>ref. expandAzureKeyVaultPassword meta (key_vault_password d) = Some ref \<Longrightarrow>
            flattenAzureKeyVaultPassword meta (Some ref) = key_vault_password d"
    and ps: "flattenDataFactoryParameters meta None = Map.empty"
            "flattenDataFactoryParameters meta
               (expandDataFactoryParameters meta (parameters d)) = parameters d"
    and an: "flattenDataFactoryAnnotations meta None = []"
            "flattenDataFactoryAnnotations meta (Some (annotations d)) = annotations d"
    and ir: "\<And>r n. expandDataFactoryLinkedServiceIntegrationRuntime meta
                      (integration_runtime_name d) = Some r \<Longrightarrow>
                    ReferenceName r = Some n \<Longrightarrow> n = integration_runtime_name d"
    and check: "checkExisting meta client d log = (None, log1)"
    and wr: "CreateOrUpdate client log1 (resource_group_name d) (data_factory_name d) (name d)
                  (linkedService meta d) [] = (r, None)"
    and log2: "log2 = log1 @ [CreateOrUpdateCall (resource_group_name d) (data_factory_name d)
                               (name d) (linkedService meta d) [],
                             GetCall (resource_group_name d) (data_factory_name d) (name d) []]"
    and reread: "Get client (butlast log2) (resource_group_name d) (data_factory_name d) (name d) []
                   = (resp, None)"
    and ident: "ID resp = Some i"
    and parse: "LinkedServiceID meta i =
                  Inr \<lparr>ResourceGroup = resource_group_name d,
                       FactoryName = data_factory_name d, idName = name d\<rparr>"
    and read: "Get client log2 (resource_group_name d) (data_factory_name d) (name d) []
                 = (resp', None)"
    and same: "Name resp' = Some (name d)" "Properties resp' = Properties (linkedService meta d)"
  shows "resourceDataFactoryLinkedServiceAzureSQLDatabaseCreateUpdate meta client d log =
     (None, d\<lparr>rd_Id := i\<rparr>,
      log2 @ [GetCall (resource_group_name d) (data_factory_name d) (name d) []])"
proof -
  let ?lsid = "\<lparr>ResourceGroup = resource_group_name d,
                FactoryName = data_factory_name d, idName = name d\<rparr>"
  let ?d1 = "d\<lparr>rd_Id := i\<rparr>"
  have reread': "Get client
        (log1 @ [CreateOrUpdateCall (resource_group_name d) (data_factory_name d)
                               (name d) (linkedService meta d) []])
        (resource_group_name d) (data_factory_name d) (name d) [] = (resp, None)"
    using reread by (simp add: log2 butlast_append)
  have body: "resourceDataFactoryLinkedServiceAzureSQLDatabaseCreateUpdate_body meta client d log = (None, ?d1, log2)"
    by (simp add: body_checked [OF check wr reread'] ident log2)
  have p: "LinkedServiceID meta (rd_Id ?d1) = Inr ?lsid"
    using parse by simp
  have g: "Get client log2 (ResourceGroup ?lsid) (FactoryName ?lsid) (idName ?lsid) []
             = (resp', None)"
    using read by simp
  have props: "Properties resp' =
      Some (AzureSQLDatabase (azureSQLDatabaseLinkedService meta d))"
    by (simp add: same linkedService_def)
  have tp: "TypeProperties (azureSQLDatabaseLinkedService meta d) =
      Some (sqlDatabaseProperties meta d)"
    by (simp add: azureSQLDatabaseLinkedService_def Let_def)
  have tenant: "Tenant (sqlDatabaseProperties meta d) = Some (tenant_id d)"
    by (simp add: sqlDatabaseProperties_def Let_def)
  have spid: "ServicePrincipalID (sqlDatabaseProperties meta d) =
      (if use_managed_identity d then None else Some (service_principal_id d))"
    by (simp add: sqlDatabaseProperties_def Let_def)
  have pw: "Password (sqlDatabaseProperties meta d) =
      (if key_vault_password d \<noteq> [] then
         map_option AzureKeyVaultSecret
           (expandAzureKeyVaultPassword meta (key_vault_password d))
       else None)"
    by (simp add: sqlDatabaseProperties_def Let_def)
  have kvp: "(case Password (sqlDatabaseProperties meta d) of
            None \<Rightarrow> key_vault_password ?d1
          | Some password \<Rightarrow>
              if snd (AsAzureKeyVaultSecretReference password)
              then flattenAzureKeyVaultPassword meta
                     (fst (AsAzureKeyVaultSecretReference password))
              else key_vault_password ?d1) = key_vault_password d"
    by (cases "expandAzureKeyVaultPassword meta (key_vault_password d)")
       (simp_all add: pw kv)
  have addp: "deref_map (AdditionalProperties (azureSQLDatabaseLinkedService meta d)) =
      additional_properties d"
    by (simp add: azureSQLDatabaseLinkedService_def Let_def deref_map_def)
  have descr: "deref_string (Description (azureSQLDatabaseLinkedService meta d)) =
      description d"
    by (simp add: azureSQLDatabaseLinkedService_def Let_def deref_string_def)
  have annot: "flattenDataFactoryAnnotations meta
      (Annotations (azureSQLDatabaseLinkedService meta d)) = annotations d"
    using an by (simp add: azureSQLDatabaseLinkedService_def Let_def)
  have param: "flattenDataFactoryParameters meta
      (Parameters (azureSQLDatabaseLinkedService meta d)) = parameters d"
    using ps by (simp add: azureSQLDatabaseLinkedService_def Let_def)
  have cv: "ConnectVia (azureSQLDatabaseLinkedService meta d) =
      (if integration_runtime_name d \<noteq> [] then
         expandDataFactoryLinkedServiceIntegrationRuntime meta (integration_runtime_name d)
       else None)"
    by (simp add: azureSQLDatabaseLinkedService_def Let_def)
  have irn: "(case ConnectVia (azureSQLDatabaseLinkedService meta d) of
            None \<Rightarrow> integration_runtime_name ?d1
          | Some connectVia \<Rightarrow>
              (case ReferenceName connectVia of
                 None \<Rightarrow> integration_runtime_name ?d1
               | Some n \<Rightarrow> n)) = integration_runtime_name d"
    using ir by (simp add: cv split: option.split)
  have ten: "(case Tenant (sqlDatabaseProperties meta d) of
            None \<Rightarrow> tenant_id ?d1 | Some t \<Rightarrow> t) = tenant_id d"
    by (simp add: tenant)
  have sp: "(case ServicePrincipalID (sqlDatabaseProperties meta d) of
            None \<Rightarrow> service_principal_id ?d1 | Some s \<Rightarrow> s) = service_principal_id d"
    by (simp add: spid)
  have umi: "(ServicePrincipalID (sqlDatabaseProperties meta d) = None) =
      use_managed_identity d"
    by (simp add: spid)
  have nm: "deref_string (Name resp') = name d"
    by (simp add: same deref_string_def)
  have attrs: "resourceDataFactoryLinkedServiceAzureSQLDatabaseRead_attributes meta ?lsid resp' ?d1 = (None, ?d1)"
    by (simp add: attributes_classified [OF props tp]
          nm ten sp umi kvp addp descr annot param irn)
  have "resourceDataFactoryLinkedServiceAzureSQLDatabaseRead meta client ?d1 log2 =
      (None, ?d1, log2 @ [GetCall (resource_group_name d) (data_factory_name d) (name d) []])"
    by (simp add: read_parsed [OF p g] attrs)
  then show ?thesis
    by (simp add: createUpdate_read body)
qed

text \<open>
  The same from any resource data: what Read stores when the response carries the
  properties built from a configuration \<open>d\<close>, whatever the resource data \<open>d0\<close> held
  before, and what CreateUpdate ends with when its final Read gets such a response.
\<close>

lemma read_of_echo:
  assumes kv: "key_vault_password d \<noteq> [] \<Longrightarrow>
            \<exists>ref. expandAzureKeyVaultPassword meta (key_vault_password d) = Some ref \<and>
              flattenAzureKeyVaultPassword meta (Some ref) = key_vault_password d"
    and ps: "flattenDataFactoryParameters meta None = Map.empty"
            "flattenDataFactoryParameters meta
               (expandDataFactoryParameters meta (parameters d)) = parameters d"
    and an: "flattenDataFactoryAnnotations meta None = []"
            "flattenDataFactoryAnnotations meta (Some (annotations d)) = annotations d"
    and ir: "integration_runtime_name d \<noteq> [] \<Longrightarrow>
            \<exists>r. expandDataFactoryLinkedServiceIntegrationRuntime meta
                   (integration_runtime_name d) = Some r \<and>
              ReferenceName r = Some (integration_runtime_name d)"
    and p: "LinkedServiceID meta (rd_Id d0) = Inr lsid"
    and g: "Get client log (ResourceGroup lsid) (FactoryName lsid) (idName lsid) [] = (resp, None)"
    and same: "Properties resp = Properties (linkedService meta d)"
  shows "resourceDataFactoryLinkedServiceAzureSQLDatabaseRead meta client d0 log =
     (None,
      d0\<lparr>name := deref_string (Name resp),
         resource_group_name := ResourceGroup lsid,
         data_factory_name := FactoryName lsid,
         tenant_id := tenant_id d,
         service_principal_id :=
           (if use_managed_identity d then service_principal_id d0
            else service_principal_id d),
         use_managed_identity := use_managed_identity d,
         additional_properties := additional_properties d,
         description := description d,
         key_vault_password :=
           (if key_vault_password d \<noteq> [] then key_vault_password d
            else key_vault_password d0),
         annotations := annotations d,
         parameters := parameters d,
         integration_runtime_name :=
           (if integration_runtime_name d \<noteq> [] then integration_runtime_name d
            else integration_runtime_name d0)\<rparr>,
      log @ [GetCall (ResourceGroup lsid) (FactoryName lsid) (idName lsid) []])"
proof -
  have props: "Properties resp =
      Some (AzureSQLDatabase (azureSQLDatabaseLinkedService meta d))"
    by (simp add: same linkedService_def)
  have tp: "TypeProperties (azureSQLDatabaseLinkedService meta d) =
      Some (sqlDatabaseProperties meta d)"
    by (simp add: azureSQLDatabaseLinkedService_def Let_def)
  have ten: "(case Tenant (sqlDatabaseProperties meta d) of
            None \<Rightarrow> tenant_id d0 | Some t \<Rightarrow> t) = tenant_id d"
    by (simp add: sqlDatabaseProperties_def Let_def)
  have sp: "(case ServicePrincipalID (sqlDatabaseProperties meta d) of
            None \<Rightarrow> service_principal_id d0 | Some s \<Rightarrow> s) =
      (if use_managed_identity d then service_principal_id d0 else service_principal_id d)"
    by (simp add: sqlDatabaseProperties_def Let_def)
  have umi: "(ServicePrincipalID (sqlDatabaseProperties meta d) = None) =
      use_managed_identity d"
    by (simp add: sqlDatabaseProperties_def Let_def)
  have pw: "Password (sqlDatabaseProperties meta d) =
      (if key_vault_password d \<noteq> [] then
         map_option AzureKeyVaultSecret
           (expandAzureKeyVaultPassword meta (key_vault_password d))
       else None)"
    by (simp add: sqlDatabaseProperties_def Let_def)
  have kvp: "(case Password (sqlDatabaseProperties meta d) of
            None \<Rightarrow> key_vault_password d0
          | Some password \<Rightarrow>
              if snd (AsAzureKeyVaultSecretReference password)
              then flattenAzureKeyVaultPassword meta
                     (fst (AsAzureKeyVaultSecretReference password))
              else key_vault_password d0) =
      (if key_vault_password d \<noteq> [] then key_vault_password d else key_vault_password d0)"
  proof (cases "key_vault_password d = []")
    case True
    then show ?thesis by (simp add: pw)
  next
    case False
    then obtain ref where
      "expandAzureKeyVaultPassword meta (key_vault_password d) = Some ref"
      "flattenAzureKeyVaultPassword meta (Some ref) = key_vault_password d"
      using kv by blast
    with False show ?thesis by (simp add: pw)
  qed
  have addp: "deref_map (AdditionalProperties (azureSQLDatabaseLinkedService meta d)) =
      additional_properties d"
    by (simp add: azureSQLDatabaseLinkedService_def Let_def deref_map_def)
  have descr: "deref_string (Description (azureSQLDatabaseLinkedService meta d)) =
      description d"
    by (simp add: azureSQLDatabaseLinkedService_def Let_def deref_string_def)
  have annot: "flattenDataFactoryAnnotations meta
      (Annotations (azureSQLDatabaseLinkedService meta d)) = annotations d"
    using an by (simp add: azureSQLDatabaseLinkedService_def Let_def)
  have param: "flattenDataFactoryParameters meta
      (Parameters (azureSQLDatabaseLinkedService meta d)) = parameters d"
    using ps by (simp add: azureSQLDatabaseLinkedService_def Let_def)
  have cv: "ConnectVia (azureSQLDatabaseLinkedService meta d) =
      (if integration_runtime_name d \<noteq> [] then
         expandDataFactoryLinkedServiceIntegrationRuntime meta (integration_runtime_name d)
       else None)"
    by (simp add: azureSQLDatabaseLinkedService_def Let_def)
  have irn: "(case ConnectVia (azureSQLDatabaseLinkedService meta d) of
            None \<Rightarrow> integration_runtime_name d0
          | Some connectVia \<Rightarrow>
              (case ReferenceName connectVia of
                 None \<Rightarrow> integration_runtime_name d0
               | Some n \<Rightarrow> n)) =
      (if integration_runtime_name d \<noteq> [] then integration_runtime_name d
       else integration_runtime_name d0)"
  proof (cases "integration_runtime_name d = []")
    case True
    then show ?thesis by (simp add: cv)
  next
    case False
    then obtain r where
      "expandDataFactoryLinkedServiceIntegrationRuntime meta (integration_runtime_name d) =
         Some r"
      "ReferenceName r = Some (integration_runtime_name d)"
      using ir by blast
    with False show ?thesis by (simp add: cv)
  qed
  show ?thesis
    by (simp add: read_parsed [OF p g] attributes_classified [OF props tp]
          ten sp umi kvp addp descr annot param irn)
qed

lemma createUpdate_of_echo:
  assumes kv: "key_vault_password d \<noteq> [] \<Longrightarrow>
            \<exists>ref. expandAzureKeyVaultPassword meta (key_vault_password d) = Some ref \<and>
              flattenAzureKeyVaultPassword meta (Some ref) = key_vault_password d"
    and ps: "flattenDataFactoryParameters meta None = Map.empty"
            "flattenDataFactoryParameters meta
               (expandDataFactoryParameters meta (parameters d)) = parameters d"
    and an: "flattenDataFactoryAnnotations meta None = []"
            "flattenDataFactoryAnnotations meta (Some (annotations d)) = annotations d"
    and ir: "integration_runtime_name d \<noteq> [] \<Longrightarrow>
            \<exists>r. expandDataFactoryLinkedServiceIntegrationRuntime meta
                   (integration_runtime_name d) = Some r \<and>
              ReferenceName r = Some (integration_runtime_name d)"
    and check: "checkExisting meta client d log = (None, log1)"
    and wr: "CreateOrUpdate client log1 (resource_group_name d) (data_factory_name d) (name d)
        (linkedService meta d) [] = (r, None)"
    and reread: "Get client
        (log1 @ [CreateOrUpdateCall (resource_group_name d) (data_factory_name d) (name d)
                (linkedService meta d) []])
        (resource_group_name d) (data_factory_name d) (name d) [] = (resp1, None)"
    and ident: "ID resp1 = Some i"
    and parse: "LinkedServiceID meta i = Inr lsid"
    and rd: "Get client
        (log1 @ [CreateOrUpdateCall (resource_group_name d) (data_factory_name d) (name d)
                (linkedService meta d) [],
                GetCall (resource_group_name d) (data_factory_name d) (name d) []])
        (ResourceGroup lsid) (FactoryName lsid) (idName lsid) [] = (resp, None)"
    and same: "Properties resp = Properties (linkedService meta d)"
  shows "resourceDataFactoryLinkedServiceAzureSQLDatabaseCreateUpdate meta client d log =
       (None,
        d\<lparr>rd_Id := i, name := deref_string (Name resp),
          resource_group_name := ResourceGroup lsid,
          data_factory_name := FactoryName lsid\<rparr>,
        log1 @ [CreateOrUpdateCall (resource_group_name d) (data_factory_name d) (name d)
                (linkedService meta d) [],
                GetCall (resource_group_name d) (data_factory_name d) (name d) [],
                GetCall (ResourceGroup lsid) (FactoryName lsid) (idName lsid) []])"
proof -
  let ?d1 = "d\<lparr>rd_Id := i\<rparr>"
  have body: "resourceDataFactoryLinkedServiceAzureSQLDatabaseCreateUpdate_body meta client d log =
      (None, ?d1,
       log1 @ [CreateOrUpdateCall (resource_group_name d) (data_factory_name d) (name d)
                (linkedService meta d) [],
               GetCall (resource_group_name d) (data_factory_name d) (name d) []])"
    by (simp add: body_checked [OF check wr reread] ident)
  have p: "LinkedServiceID meta (rd_Id ?d1) = Inr lsid"
    using parse by simp
  have "resourceDataFactoryLinkedServiceAzureSQLDatabaseRead meta client ?d1
      (log1 @ [CreateOrUpdateCall (resource_group_name d) (data_factory_name d) (name d)
                (linkedService meta d) [],
               GetCall (resource_group_name d) (data_factory_name d) (name d) []]) =
     (None,
      ?d1\<lparr>name := deref_string (Name resp),
         resource_group_name := ResourceGroup lsid,
         data_factory_name := FactoryName lsid,
         tenant_id := tenant_id d,
         service_principal_id :=
           (if use_managed_identity d then service_principal_id ?d1
            else service_principal_id d),
         use_managed_identity := use_managed_identity d,
         additional_properties := additional_properties d,
         description := description d,
         key_vault_password :=
           (if key_vault_password d \<noteq> [] then key_vault_password d
            else key_vault_password ?d1),
         annotations := annotations d,
         parameters := parameters d,
         integration_runtime_name :=
           (if integration_runtime_name d \<noteq> [] then integration_runtime_name d
            else integration_runtime_name ?d1)\<rparr>,
      (log1 @ [CreateOrUpdateCall (resource_group_name d) (data_factory_name d) (name d)
                (linkedService meta d) [],
               GetCall (resource_group_name d) (data_factory_name d) (name d) []]) @
      [GetCall (ResourceGroup lsid) (FactoryName lsid) (idName lsid) []])"
    by (rule read_of_echo [OF _ ps an _ p rd same]) (fact kv ir)+
  then show ?thesis
    by (simp add: createUpdate_read body)
qed

subsection \<open>The concrete collaborators at work\<close>

lemma test_parse:
  "LinkedServiceID testMeta testId =
     Inr \<lparr>ResourceGroup = ''rg'', FactoryName = ''df'', idName = ''ls''\<rparr>"
  by (simp add: testMeta_def testLinkedServiceID_def)

lemma test_kv:
  "expandAzureKeyVaultPassword testMeta (key_vault_password testConfig) = Some ref \<Longrightarrow>
     flattenAzureKeyVaultPassword testMeta (Some ref) = key_vault_password testConfig"
  by (auto simp: testMeta_def testConfig_def deref_string_def)

lemma test_params:
  "flattenDataFactoryParameters testMeta None = Map.empty"
  "flattenDataFactoryParameters testMeta (expandDataFactoryParameters testMeta m) = m"
  by (simp_all add: testMeta_def option.map_comp comp_def option.map_ident)

lemma test_annotations:
  "flattenDataFactoryAnnotations testMeta None = []"
  "flattenDataFactoryAnnotations testMeta (Some l) = l"
  by (simp_all add: testMeta_def)

lemma test_runtime:
  "expandDataFactoryLinkedServiceIntegrationRuntime testMeta n = Some r \<Longrightarrow>
     ReferenceName r = Some n' \<Longrightarrow> n' = n"
  by (auto simp: testMeta_def)

lemma test_triple:
  "resource_group_name testConfig = ''rg''" "data_factory_name testConfig = ''df''"
  "name testConfig = ''ls''" "IsNewResource testConfig"
  by (simp_all add: testConfig_def)

lemma fake_check:
  "checkExisting testMeta fakeClient testConfig [] = (None, [GetCall ''rg'' ''df'' ''ls'' []])"
proof -
  have g: "Get fakeClient [] (resource_group_name testConfig) (data_factory_name testConfig)
             (name testConfig) [] = (notFound, Some ''ResourceNotFound'')"
    by (simp add: fakeClient_def)
  have n: "ResponseWasNotFound testMeta (Response notFound)" "ID notFound = None"
    by (simp_all add: testMeta_def notFound_def)
  show ?thesis
    by (simp add: check_new [OF test_triple(4) g] n test_triple)
qed

lemma fake_get:
  "Get fakeClient (log @ [CreateOrUpdateCall ''rg'' ''df'' ''ls'' b []]) ''rg'' ''df'' ''ls'' [] =
     (found b ''ls'', None)"
  "Get fakeClient (log @ [CreateOrUpdateCall ''rg'' ''df'' ''ls'' b [], GetCall rg f n []])
     ''rg'' ''df'' ''ls'' [] = (found b ''ls'', None)"
  by (simp_all add: fakeClient_def)

lemma found_fields:
  "ID (found b n) = Some testId" "Name (found b n) = Some n"
  "Properties (found b n) = Properties b"
  by (simp_all add: found_def)

lemma fake_write:
  "CreateOrUpdate fakeClient [GetCall ''rg'' ''df'' ''ls'' []] (resource_group_name testConfig)
     (data_factory_name testConfig) (name testConfig) (linkedService testMeta testConfig) [] =
   (found (linkedService testMeta testConfig) ''ls'', None)"
  by (simp add: fakeClient_def test_triple)

lemma fake_log:
  "[GetCall ''rg'' ''df'' ''ls'' [],
    CreateOrUpdateCall ''rg'' ''df'' ''ls'' (linkedService testMeta testConfig) [],
    GetCall ''rg'' ''df'' ''ls'' []] =
   [GetCall ''rg'' ''df'' ''ls'' []] @
   [CreateOrUpdateCall (resource_group_name testConfig) (data_factory_name testConfig)
      (name testConfig) (linkedService testMeta testConfig) [],
    GetCall (resource_group_name testConfig) (data_factory_name testConfig)
      (name testConfig) []]"
  by (simp add: test_triple)

lemma fake_reread:
  "Get fakeClient
     (butlast [GetCall ''rg'' ''df'' ''ls'' [],
               CreateOrUpdateCall ''rg'' ''df'' ''ls'' (linkedService testMeta testConfig) [],
               GetCall ''rg'' ''df'' ''ls'' []])
     (resource_group_name testConfig) (data_factory_name testConfig) (name testConfig) [] =
   (found (linkedService testMeta testConfig) ''ls'', None)"
  using fake_get(1) [of "[GetCall ''rg'' ''df'' ''ls'' []]" "linkedService testMeta testConfig"]
  by (simp add: test_triple)

lemma fake_read:
  "Get fakeClient
     [GetCall ''rg'' ''df'' ''ls'' [],
      CreateOrUpdateCall ''rg'' ''df'' ''ls'' (linkedService testMeta testConfig) [],
      GetCall ''rg'' ''df'' ''ls'' []]
     (resource_group_name testConfig) (data_factory_name testConfig) (name testConfig) [] =
   (found (linkedService testMeta testConfig) ''ls'', None)"
  using fake_get(2) [of "[GetCall ''rg'' ''df'' ''ls'' []]" "linkedService testMeta testConfig"
      "''rg''" "''df''" "''ls''"]
  by (simp add: test_triple)

lemma fake_parse:
  "LinkedServiceID testMeta testId =
     Inr \<lparr>ResourceGroup = resource_group_name testConfig,
          FactoryName = data_factory_name testConfig, idName = name testConfig\<rparr>"
  by (simp add: test_parse test_triple)

lemma fake_body:
  "resourceDataFactoryLinkedServiceAzureSQLDatabaseCreateUpdate_body testMeta fakeClient testConfig [] =
     (None, testConfig\<lparr>rd_Id := testId\<rparr>,
      [GetCall ''rg'' ''df'' ''ls'' [],
       CreateOrUpdateCall ''rg'' ''df'' ''ls'' (linkedService testMeta testConfig) [],
       GetCall ''rg'' ''df'' ''ls'' []])"
  using fake_reread
  by (simp add: body_checked [OF fake_check fake_write] found_fields test_triple)

lemma fake_run:
  "resourceDataFactoryLinkedServiceAzureSQLDatabaseCreateUpdate testMeta fakeClient testConfig [] =
     (None, testConfig\<lparr>rd_Id := testId\<rparr>,
      [GetCall ''rg'' ''df'' ''ls'' [],
       CreateOrUpdateCall ''rg'' ''df'' ''ls'' (linkedService testMeta testConfig) [],
       GetCall ''rg'' ''df'' ''ls'' [], GetCall ''rg'' ''df'' ''ls'' []])"
proof -
  have "resourceDataFactoryLinkedServiceAzureSQLDatabaseCreateUpdate testMeta fakeClient testConfig [] =
     (None, testConfig\<lparr>rd_Id := testId\<rparr>,
      [GetCall ''rg'' ''df'' ''ls'' [],
       CreateOrUpdateCall ''rg'' ''df'' ''ls'' (linkedService testMeta testConfig) [],
       GetCall ''rg'' ''df'' ''ls'' []] @
      [GetCall (resource_group_name testConfig) (data_factory_name testConfig)
         (name testConfig) []])"
    by (rule createUpdate_echo [OF test_kv test_params(1) test_params(2) test_annotations(1)
          test_annotations(2) test_runtime fake_check fake_write fake_log fake_reread
          found_fields(1) fake_parse fake_read _ found_fields(3)])
       (simp_all add: found_fields test_triple)
  then show ?thesis by (simp add: test_triple)
qed

lemma fake_get_written:
  "Get fakeClient writtenLog ''rg'' ''df'' ''ls'' [] =
     (found (linkedService testMeta testConfig) ''ls'', None)"
  by (simp add: fakeClient_def writtenLog_def)

lemma test_not_found:
  "ResponseWasNotFound testMeta r = (r = Some 404)"
  by (simp add: testMeta_def)

lemma garbled_get:
  "Get garbledClient [] (resource_group_name testConfig) (data_factory_name testConfig)
     (name testConfig) [] =
   (notFound\<lparr>Response := Some 200, ID := Some testId\<rparr>, Some ''json: cannot unmarshal'')"
  by (simp add: garbledClient_def)

lemma garbled_response:
  "ID (notFound\<lparr>Response := Some 200, ID := Some testId\<rparr>) = Some testId"
  "testId \<noteq> []"
  by (simp_all add: testId_def)

lemma server_error:
  "\<not> ResponseWasNotFound testMeta (Response serverError)"
  "\<not> ResponseWasNotFound testMeta (Some 500)"
  by (simp_all add: testMeta_def serverError_def notFound_def)

lemma failing_check:
  "0 < k \<Longrightarrow>
     checkExisting testMeta (failingAt k) testConfig [] = (None, [GetCall ''rg'' ''df'' ''ls'' []])"
proof -
  assume k: "0 < k"
  have g: "Get (failingAt k) [] (resource_group_name testConfig) (data_factory_name testConfig)
             (name testConfig) [] = (notFound, Some ''ResourceNotFound'')"
    using k by (simp add: failingAt_def fakeClient_def)
  have n: "ResponseWasNotFound testMeta (Response notFound)" "ID notFound = None"
    by (simp_all add: testMeta_def notFound_def)
  show ?thesis
    by (simp add: check_new [OF test_triple(4) g] n test_triple)
qed

lemma failing_body:
  "resourceDataFactoryLinkedServiceAzureSQLDatabaseCreateUpdate_body testMeta (failingAt 3) testConfig [] =
     (None, testConfig\<lparr>rd_Id := testId\<rparr>,
      [GetCall ''rg'' ''df'' ''ls'' [],
       CreateOrUpdateCall ''rg'' ''df'' ''ls'' (linkedService testMeta testConfig) [],
       GetCall ''rg'' ''df'' ''ls'' []])"
proof -
  have c: "checkExisting testMeta (failingAt 3) testConfig [] =
      (None, [GetCall ''rg'' ''df'' ''ls'' []])"
    by (simp add: failing_check)
  have w: "CreateOrUpdate (failingAt 3) [GetCall ''rg'' ''df'' ''ls'' []]
      (resource_group_name testConfig) (data_factory_name testConfig) (name testConfig)
      (linkedService testMeta testConfig) [] =
      (found (linkedService testMeta testConfig) ''ls'', None)"
    by (simp add: failingAt_def fakeClient_def test_triple)
  have g: "Get (failingAt 3)
      ([GetCall ''rg'' ''df'' ''ls'' []] @
       [CreateOrUpdateCall (resource_group_name testConfig) (data_factory_name testConfig)
          (name testConfig) (linkedService testMeta testConfig) []])
      (resource_group_name testConfig) (data_factory_name testConfig) (name testConfig) [] =
      (found (linkedService testMeta testConfig) ''ls'', None)"
    by (simp add: failingAt_def fakeClient_def test_triple)
  show ?thesis
    by (simp add: body_checked [OF c w g] found_fields test_triple)
qed

lemma unparsed:
  "LinkedServiceID testMeta [] = Inl ''parsing Linked Service ID''"
  "rd_Id testConfig = []"
  by (simp_all add: testMeta_def testLinkedServiceID_def testId_def testConfig_def)

lemma vanishing_run:
  "resourceDataFactoryLinkedServiceAzureSQLDatabaseCreateUpdate testMeta vanishingClient testConfig [] =
     (None, testConfig\<lparr>rd_Id := []\<rparr>,
      [GetCall ''rg'' ''df'' ''ls'' [],
       CreateOrUpdateCall ''rg'' ''df'' ''ls'' (linkedService testMeta testConfig) [],
       GetCall ''rg'' ''df'' ''ls'' [], GetCall ''rg'' ''df'' ''ls'' []])"
proof -
  let ?G = "GetCall ''rg'' ''df'' ''ls'' []"
  let ?W = "CreateOrUpdateCall ''rg'' ''df'' ''ls'' (linkedService testMeta testConfig) []"
  let ?lsid = "\<lparr>ResourceGroup = ''rg'', FactoryName = ''df'', idName = ''ls''\<rparr>"
  have g0: "Get vanishingClient [] (resource_group_name testConfig)
      (data_factory_name testConfig) (name testConfig) [] =
      (notFound, Some ''ResourceNotFound'')"
    by (simp add: vanishingClient_def)
  have n: "Response notFound = Some 404" "ID notFound = None"
    by (simp_all add: notFound_def)
  have c: "checkExisting testMeta vanishingClient testConfig [] = (None, [?G])"
    by (simp add: check_new [OF test_triple(4) g0] n test_not_found test_triple)
  have w: "CreateOrUpdate vanishingClient [?G] (resource_group_name testConfig)
      (data_factory_name testConfig) (name testConfig)
      (linkedService testMeta testConfig) [] =
      (found (linkedService testMeta testConfig) ''ls'', None)"
    by (simp add: vanishingClient_def test_triple)
  have g: "Get vanishingClient
      ([?G] @ [CreateOrUpdateCall (resource_group_name testConfig)
                 (data_factory_name testConfig) (name testConfig)
                 (linkedService testMeta testConfig) []])
      (resource_group_name testConfig) (data_factory_name testConfig) (name testConfig) [] =
      (found notFound ''ls'', None)"
    by (simp add: vanishingClient_def test_triple)
  have b: "resourceDataFactoryLinkedServiceAzureSQLDatabaseCreateUpdate_body testMeta vanishingClient testConfig [] =
      (None, testConfig\<lparr>rd_Id := testId\<rparr>, [?G, ?W, ?G])"
    by (simp add: body_checked [OF c w g] found_fields test_triple)
  have p: "LinkedServiceID testMeta (rd_Id (testConfig\<lparr>rd_Id := testId\<rparr>)) = Inr ?lsid"
    by (simp add: test_parse)
  have g3: "Get vanishingClient [?G, ?W, ?G] (ResourceGroup ?lsid) (FactoryName ?lsid)
      (idName ?lsid) [] = (notFound, Some ''ResourceNotFound'')"
    by (simp add: vanishingClient_def)
  have "resourceDataFactoryLinkedServiceAzureSQLDatabaseRead testMeta vanishingClient (testConfig\<lparr>rd_Id := testId\<rparr>) [?G, ?W, ?G] =
      (None, testConfig\<lparr>rd_Id := []\<rparr>, [?G, ?W, ?G, ?G])"
    by (simp add: read_parsed [OF p g3] n test_not_found)
  then show ?thesis
    by (simp add: createUpdate_read b)
qed

lemma vanishing_reread:
  "Get vanishingClient
     [GetCall ''rg'' ''df'' ''ls'' [],
      CreateOrUpdateCall ''rg'' ''df'' ''ls'' (linkedService testMeta testConfig) []]
     ''rg'' ''df'' ''ls'' [] = (found notFound ''ls'', None)"
  by (simp add: vanishingClient_def)

lemma nameless_calls:
  "checkExisting testMeta namelessClient testConfig [] = (None, [GetCall ''rg'' ''df'' ''ls'' []])"
  "CreateOrUpdate namelessClient log ''rg'' ''df'' ''ls'' b [] = (found b ''ls'', None)"
  "Get namelessClient log ''rg'' ''df'' ''ls'' [] = (notFound\<lparr>Response := Some 200\<rparr>, None)"
  "ID (notFound\<lparr>Response := Some 200\<rparr>) = None"
proof -
  have g: "Get namelessClient [] (resource_group_name testConfig)
      (data_factory_name testConfig) (name testConfig) [] =
      (notFound\<lparr>Response := Some 200\<rparr>, None)"
    by (simp add: namelessClient_def)
  show "checkExisting testMeta namelessClient testConfig [] =
      (None, [GetCall ''rg'' ''df'' ''ls'' []])"
    by (simp add: check_new [OF test_triple(4) g] notFound_def test_triple)
qed (simp_all add: namelessClient_def notFound_def)

lemma test_kv_some:
  "\<exists>ref. expandAzureKeyVaultPassword testMeta (key_vault_password testConfig) = Some ref \<and>
     flattenAzureKeyVaultPassword testMeta (Some ref) = key_vault_password testConfig"
  "\<exists>ref. expandAzureKeyVaultPassword testMeta (key_vault_password upperCaseConfig) = Some ref \<and>
     flattenAzureKeyVaultPassword testMeta (Some ref) = key_vault_password upperCaseConfig"
  by (simp_all add: testMeta_def testConfig_def upperCaseConfig_def deref_string_def)

lemma test_runtime_some:
  "\<exists>r. expandDataFactoryLinkedServiceIntegrationRuntime testMeta n = Some r \<and>
     ReferenceName r = Some n"
  by (simp add: testMeta_def)

lemma test_values:
  "tenant_id testConfig = ''t''" "service_principal_id testConfig = ''sp''"
  "use_managed_identity testConfig = False"
  "additional_properties testConfig = [''k'' \<mapsto> ''w'']" "description testConfig = ''sales''"
  "key_vault_password testConfig = [\<lparr>linked_service_name = ''kv'', secret_name = ''pw''\<rparr>]"
  "annotations testConfig = [''a'']" "parameters testConfig = [''p'' \<mapsto> ''v'']"
  "integration_runtime_name testConfig = ''ir''"
  "connection_string testConfig = ''Server=x;Database=y''"
  by (simp_all add: testConfig_def)

lemma blank_values:
  "rd_Id blankData = testId" "connection_string blankData = []"
  "service_principal_key blankData = []"
  by (simp_all add: blankData_def)

lemma blank_read:
  "resourceDataFactoryLinkedServiceAzureSQLDatabaseRead testMeta fakeClient blankData writtenLog =
     (None,
      blankData\<lparr>name := ''ls'', resource_group_name := ''rg'', data_factory_name := ''df'',
        tenant_id := ''t'', service_principal_id := ''sp'', use_managed_identity := False,
        additional_properties := [''k'' \<mapsto> ''w''], description := ''sales'',
        key_vault_password := [\<lparr>linked_service_name = ''kv'', secret_name = ''pw''\<rparr>],
        annotations := [''a''], parameters := [''p'' \<mapsto> ''v''],
        integration_runtime_name := ''ir''\<rparr>,
      writtenLog @ [GetCall ''rg'' ''df'' ''ls'' []])"
proof -
  let ?lsid = "\<lparr>ResourceGroup = ''rg'', FactoryName = ''df'', idName = ''ls''\<rparr>"
  have p: "LinkedServiceID testMeta (rd_Id blankData) = Inr ?lsid"
    by (simp add: blank_values test_parse)
  have g: "Get fakeClient writtenLog (ResourceGroup ?lsid) (FactoryName ?lsid) (idName ?lsid) [] =
      (found (linkedService testMeta testConfig) ''ls'', None)"
    by (simp add: fake_get_written)
  have "resourceDataFactoryLinkedServiceAzureSQLDatabaseRead testMeta fakeClient blankData
      writtenLog =
     (None,
      blankData\<lparr>name := deref_string (Name (found (linkedService testMeta testConfig) ''ls'')),
         resource_group_name := ResourceGroup ?lsid,
         data_factory_name := FactoryName ?lsid,
         tenant_id := tenant_id testConfig,
         service_principal_id :=
           (if use_managed_identity testConfig then service_principal_id blankData
            else service_principal_id testConfig),
         use_managed_identity := use_managed_identity testConfig,
         additional_properties := additional_properties testConfig,
         description := description testConfig,
         key_vault_password :=
           (if key_vault_password testConfig \<noteq> [] then key_vault_password testConfig
            else key_vault_password blankData),
         annotations := annotations testConfig,
         parameters := parameters testConfig,
         integration_runtime_name :=
           (if integration_runtime_name testConfig \<noteq> []
            then integration_runtime_name testConfig
            else integration_runtime_name blankData)\<rparr>,
      writtenLog @ [GetCall (ResourceGroup ?lsid) (FactoryName ?lsid) (idName ?lsid) []])"
    by (rule read_of_echo [OF test_kv_some(1) test_params(1) test_params(2)
          test_annotations(1) test_annotations(2) test_runtime_some p g found_fields(3)])
  then show ?thesis
    by (simp add: test_values found_fields deref_string_def)
qed

lemma upper_values:
  "resource_group_name upperCaseConfig = ''RG''" "data_factory_name upperCaseConfig = ''df''"
  "name upperCaseConfig = ''ls''" "IsNewResource upperCaseConfig"
  by (simp_all add: upperCaseConfig_def testConfig_def)

lemma folding_calls:
  "Get caseFoldingClient [] ''RG'' ''df'' ''ls'' [] = (notFound, Some ''ResourceNotFound'')"
  "CreateOrUpdate caseFoldingClient log ''RG'' ''df'' ''ls'' b [] = (found b ''ls'', None)"
  "Get caseFoldingClient
     [GetCall ''RG'' ''df'' ''ls'' [], CreateOrUpdateCall ''RG'' ''df'' ''ls'' b []]
     ''RG'' ''df'' ''ls'' [] = (found b ''ls'', None)"
  "Get caseFoldingClient
     [GetCall ''RG'' ''df'' ''ls'' [], CreateOrUpdateCall ''RG'' ''df'' ''ls'' b [],
      GetCall ''RG'' ''df'' ''ls'' []]
     ''rg'' ''df'' ''ls'' [] = (found b ''ls'', None)"
  by (simp_all add: caseFoldingClient_def fakeClient_def foldGroup_def)

lemma folding_check:
  "checkExisting testMeta caseFoldingClient upperCaseConfig [] =
     (None, [GetCall ''RG'' ''df'' ''ls'' []])"
proof -
  have g: "Get caseFoldingClient [] (resource_group_name upperCaseConfig)
      (data_factory_name upperCaseConfig) (name upperCaseConfig) [] =
      (notFound, Some ''ResourceNotFound'')"
    by (simp add: upper_values folding_calls)
  have n: "Response notFound = Some 404" "ID notFound = None"
    by (simp_all add: notFound_def)
  show ?thesis
    by (simp add: check_new [OF upper_values(4) g] n test_not_found upper_values)
qed

lemma folding_run:
  "resourceDataFactoryLinkedServiceAzureSQLDatabaseCreateUpdate testMeta caseFoldingClient
     upperCaseConfig [] =
     (None,
      upperCaseConfig\<lparr>rd_Id := testId, name := ''ls'', resource_group_name := ''rg'',
        data_factory_name := ''df''\<rparr>,
      [GetCall ''RG'' ''df'' ''ls'' [],
       CreateOrUpdateCall ''RG'' ''df'' ''ls'' (linkedService testMeta upperCaseConfig) [],
       GetCall ''RG'' ''df'' ''ls'' [], GetCall ''rg'' ''df'' ''ls'' []])"
proof -
  let ?lsid = "\<lparr>ResourceGroup = ''rg'', FactoryName = ''df'', idName = ''ls''\<rparr>"
  let ?b = "linkedService testMeta upperCaseConfig"
  have w: "CreateOrUpdate caseFoldingClient [GetCall ''RG'' ''df'' ''ls'' []]
      (resource_group_name upperCaseConfig) (data_factory_name upperCaseConfig)
      (name upperCaseConfig) ?b [] = (found ?b ''ls'', None)"
    by (simp add: upper_values folding_calls)
  have g1: "Get caseFoldingClient
      ([GetCall ''RG'' ''df'' ''ls'' []] @
       [CreateOrUpdateCall (resource_group_name upperCaseConfig)
          (data_factory_name upperCaseConfig) (name upperCaseConfig) ?b []])
      (resource_group_name upperCaseConfig) (data_factory_name upperCaseConfig)
      (name upperCaseConfig) [] = (found ?b ''ls'', None)"
    by (simp add: upper_values folding_calls)
  have g2: "Get caseFoldingClient
      ([GetCall ''RG'' ''df'' ''ls'' []] @
       [CreateOrUpdateCall (resource_group_name upperCaseConfig)
          (data_factory_name upperCaseConfig) (name upperCaseConfig) ?b [],
        GetCall (resource_group_name upperCaseConfig) (data_factory_name upperCaseConfig)
          (name upperCaseConfig) []])
      (ResourceGroup ?lsid) (FactoryName ?lsid) (idName ?lsid) [] = (found ?b ''ls'', None)"
    by (simp add: upper_values folding_calls)
  have "resourceDataFactoryLinkedServiceAzureSQLDatabaseCreateUpdate testMeta caseFoldingClient
      upperCaseConfig [] =
     (None,
      upperCaseConfig\<lparr>rd_Id := testId, name := deref_string (Name (found ?b ''ls'')),
        resource_group_name := ResourceGroup ?lsid,
        data_factory_name := FactoryName ?lsid\<rparr>,
      [GetCall ''RG'' ''df'' ''ls'' []] @
      [CreateOrUpdateCall (resource_group_name upperCaseConfig)
         (data_factory_name upperCaseConfig) (name upperCaseConfig) ?b [],
       GetCall (resource_group_name upperCaseConfig) (data_factory_name upperCaseConfig)
         (name upperCaseConfig) [],
       GetCall (ResourceGroup ?lsid) (FactoryName ?lsid) (idName ?lsid) []])"
    by (rule createUpdate_of_echo [OF test_kv_some(2) test_params(1) test_params(2)
          test_annotations(1) test_annotations(2) test_runtime_some folding_check w g1
          found_fields(1) test_parse g2 found_fields(3)])
  then show ?thesis
    by (simp add: upper_values found_fields deref_string_def)
qed

lemma bare_read:
  "resourceDataFactoryLinkedServiceAzureSQLDatabaseRead testMeta bareClient
     (testConfig\<lparr>rd_Id := testId\<rparr>) [] =
     (Some Panic, testConfig\<lparr>rd_Id := testId\<rparr>, [GetCall ''rg'' ''df'' ''ls'' []])"
proof -
  let ?lsid = "\<lparr>ResourceGroup = ''rg'', FactoryName = ''df'', idName = ''ls''\<rparr>"
  have p: "LinkedServiceID testMeta (rd_Id (testConfig\<lparr>rd_Id := testId\<rparr>)) = Inr ?lsid"
    by (simp add: test_parse)
  have g: "Get bareClient [] (ResourceGroup ?lsid) (FactoryName ?lsid) (idName ?lsid) [] =
      (bareResponse, None)"
    by (simp add: bareClient_def)
  have "resourceDataFactoryLinkedServiceAzureSQLDatabaseRead_attributes testMeta ?lsid
      bareResponse (testConfig\<lparr>rd_Id := testId\<rparr>) =
      (Some Panic, testConfig\<lparr>rd_Id := testId\<rparr>)"
    by (simp add: resourceDataFactoryLinkedServiceAzureSQLDatabaseRead_attributes_def
          bareResponse_def bareLinkedService_def deref_string_def test_triple)
  then show ?thesis
    by (simp add: read_parsed [OF p g])
qed

subsection \<open>Configuration to request and back\<close>

text \<open>
  The claim as stated fails in two ways. A configuration with resource group \<open>RG\<close>,
  written to a service that returns the properties it was sent under an identifier
  that spells the group \<open>rg\<close>: CreateUpdate succeeds and \<open>resource_group_name\<close> ends
  as \<open>rg\<close>, because Read takes it from the identifier. And Read on resource data that
  hold nothing but the identifier, against a service that returns the properties
  built from a configuration: \<open>connection_string\<close> stays empty, because Read never
  reads it back.
\<close>

theorem round_trip_counterexample:
  "resource_group_name upperCaseConfig = ''RG'' \<and>
   Properties (fst (Get caseFoldingClient
       [GetCall ''RG'' ''df'' ''ls'' [],
        CreateOrUpdateCall ''RG'' ''df'' ''ls'' (linkedService testMeta upperCaseConfig) [],
        GetCall ''RG'' ''df'' ''ls'' []] ''rg'' ''df'' ''ls'' [])) =
     Properties (linkedService testMeta upperCaseConfig) \<and>
   fst (resourceDataFactoryLinkedServiceAzureSQLDatabaseCreateUpdate testMeta caseFoldingClient
          upperCaseConfig []) = None \<and>
   resource_group_name
     (fst (snd (resourceDataFactoryLinkedServiceAzureSQLDatabaseCreateUpdate testMeta
                  caseFoldingClient upperCaseConfig []))) = ''rg'' \<and>
   connection_string testConfig = ''Server=x;Database=y'' \<and>
   Properties (fst (Get fakeClient writtenLog ''rg'' ''df'' ''ls'' [])) =
     Properties (linkedService testMeta testConfig) \<and>
   fst (resourceDataFactoryLinkedServiceAzureSQLDatabaseRead testMeta fakeClient blankData
          writtenLog) = None \<and>
   connection_string
     (fst (snd (resourceDataFactoryLinkedServiceAzureSQLDatabaseRead testMeta fakeClient
                  blankData writtenLog))) = []"
  by (simp add: folding_run folding_calls blank_read fake_get_written found_fields
        upper_values test_values blank_values)

text \<open>
  Claim C1, amended. Take any configuration \<open>d\<close> at which the flatten helpers undo the
  expand helpers, and a response to Read's Get that carries, field for field, the
  properties CreateUpdate builds from \<open>d\<close>. Then Read, from whatever resource data
  \<open>d0\<close> whose identifier parses, returns no error and stores the configured value of
  description, tenant_id, parameters, annotations, additional_properties and
  use_managed_identity, of service_principal_id when use_managed_identity is false,
  and of key_vault_password and integration_runtime_name when they are configured;
  where these three are not, they keep what \<open>d0\<close> held. It stores the name the
  response carries, and the resource group and factory of the parsed identifier.
  It does not read connection_string and service_principal_key back: they keep what
  \<open>d0\<close> held. CreateUpdate runs this Read on the configuration itself, so it ends
  with every attribute as configured, except that name, resource_group_name and
  data_factory_name are those of the response and of the identifier returned.
\<close>

theorem echoed_configuration_read_back:
  assumes kv: "key_vault_password d \<noteq> [] \<Longrightarrow>
            \<exists>ref. expandAzureKeyVaultPassword meta (key_vault_password d) = Some ref \<and>
              flattenAzureKeyVaultPassword meta (Some ref) = key_vault_password d"
    and ps: "flattenDataFactoryParameters meta None = Map.empty"
            "flattenDataFactoryParameters meta
               (expandDataFactoryParameters meta (parameters d)) = parameters d"
    and an: "flattenDataFactoryAnnotations meta None = []"
            "flattenDataFactoryAnnotations meta (Some (annotations d)) = annotations d"
    and ir: "integration_runtime_name d \<noteq> [] \<Longrightarrow>
            \<exists>r. expandDataFactoryLinkedServiceIntegrationRuntime meta
                   (integration_runtime_name d) = Some r \<and>
              ReferenceName r = Some (integration_runtime_name d)"
  shows "(LinkedServiceID meta (rd_Id d0) = Inr lsid \<longrightarrow>
      Get client log (ResourceGroup lsid) (FactoryName lsid) (idName lsid) [] = (resp, None) \<longrightarrow>
      Properties resp = Properties (linkedService meta d) \<longrightarrow>
      resourceDataFactoryLinkedServiceAzureSQLDatabaseRead meta client d0 log =
       (None,
        d0\<lparr>name := deref_string (Name resp),
           resource_group_name := ResourceGroup lsid,
           data_factory_name := FactoryName lsid,
           tenant_id := tenant_id d,
           service_principal_id :=
             (if use_managed_identity d then service_principal_id d0
              else service_principal_id d),
           use_managed_identity := use_managed_identity d,
           additional_properties := additional_properties d,
           description := description d,
           key_vault_password :=
             (if key_vault_password d \<noteq> [] then key_vault_password d
              else key_vault_password d0),
           annotations := annotations d,
           parameters := parameters d,
           integration_runtime_name :=
             (if integration_runtime_name d \<noteq> [] then integration_runtime_name d
              else integration_runtime_name d0)\<rparr>,
        log @ [GetCall (ResourceGroup lsid) (FactoryName lsid) (idName lsid) []])) \<and>
     (checkExisting meta client d log = (None, log1) \<longrightarrow>
      CreateOrUpdate client log1 (resource_group_name d) (data_factory_name d) (name d)
        (linkedService meta d) [] = (r, None) \<longrightarrow>
      Get client
        (log1 @ [CreateOrUpdateCall (resource_group_name d) (data_factory_name d) (name d)
                (linkedService meta d) []])
        (resource_group_name d) (data_factory_name d) (name d) [] = (resp1, None) \<longrightarrow>
      ID resp1 = Some i \<longrightarrow>
      LinkedServiceID meta i = Inr lsid \<longrightarrow>
      Get client
        (log1 @ [CreateOrUpdateCall (resource_group_name d) (data_factory_name d) (name d)
                (linkedService meta d) [],
                GetCall (resource_group_name d) (data_factory_name d) (name d) []])
        (ResourceGroup lsid) (FactoryName lsid) (idName lsid) [] = (resp, None) \<longrightarrow>
      Properties resp = Properties (linkedService meta d) \<longrightarrow>
      resourceDataFactoryLinkedServiceAzureSQLDatabaseCreateUpdate meta client d log =
       (None,
        d\<lparr>rd_Id := i, name := deref_string (Name resp),
          resource_group_name := ResourceGroup lsid,
          data_factory_name := FactoryName lsid\<rparr>,
        log1 @ [CreateOrUpdateCall (resource_group_name d) (data_factory_name d) (name d)
                (linkedService meta d) [],
                GetCall (resource_group_name d) (data_factory_name d) (name d) [],
                GetCall (ResourceGroup lsid) (FactoryName lsid) (idName lsid) []]))"
proof (intro conjI impI)
  assume h1: "LinkedServiceID meta (rd_Id d0) = Inr lsid"
    and h2: "Get client log (ResourceGroup lsid) (FactoryName lsid) (idName lsid) [] =
              (resp, None)"
    and h3: "Properties resp = Properties (linkedService meta d)"
  show "resourceDataFactoryLinkedServiceAzureSQLDatabaseRead meta client d0 log =
       (None,
        d0\<lparr>name := deref_string (Name resp),
           resource_group_name := ResourceGroup lsid,
           data_factory_name := FactoryName lsid,
           tenant_id := tenant_id d,
           service_principal_id :=
             (if use_managed_identity d then service_principal_id d0
              else service_principal_id d),
           use_managed_identity := use_managed_identity d,
           additional_properties := additional_properties d,
           description := description d,
           key_vault_password :=
             (if key_vault_password d \<noteq> [] then key_vault_password d
              else key_vault_password d0),
           annotations := annotations d,
           parameters := parameters d,
           integration_runtime_name :=
             (if integration_runtime_name d \<noteq> [] then integration_runtime_name d
              else integration_runtime_name d0)\<rparr>,
        log @ [GetCall (ResourceGroup lsid) (FactoryName lsid) (idName lsid) []])"
    by (rule read_of_echo [OF _ ps an _ h1 h2 h3]) (fact kv ir)+
next
  assume check: "checkExisting meta client d log = (None, log1)"
    and wr: "CreateOrUpdate client log1 (resource_group_name d) (data_factory_name d) (name d)
        (linkedService meta d) [] = (r, None)"
    and reread: "Get client
        (log1 @ [CreateOrUpdateCall (resource_group_name d) (data_factory_name d) (name d)
                (linkedService meta d) []])
        (resource_group_name d) (data_factory_name d) (name d) [] = (resp1, None)"
    and ident: "ID resp1 = Some i"
    and parse: "LinkedServiceID meta i = Inr lsid"
    and rd: "Get client
        (log1 @ [CreateOrUpdateCall (resource_group_name d) (data_factory_name d) (name d)
                (linkedService meta d) [],
                GetCall (resource_group_name d) (data_factory_name d) (name d) []])
        (ResourceGroup lsid) (FactoryName lsid) (idName lsid) [] = (resp, None)"
    and same: "Properties resp = Properties (linkedService meta d)"
  show "resourceDataFactoryLinkedServiceAzureSQLDatabaseCreateUpdate meta client d log =
       (None,
        d\<lparr>rd_Id := i, name := deref_string (Name resp),
          resource_group_name := ResourceGroup lsid,
          data_factory_name := FactoryName lsid\<rparr>,
        log1 @ [CreateOrUpdateCall (resource_group_name d) (data_factory_name d) (name d)
                (linkedService meta d) [],
                GetCall (resource_group_name d) (data_factory_name d) (name d) [],
                GetCall (ResourceGroup lsid) (FactoryName lsid) (idName lsid) []])"
    by (rule createUpdate_of_echo [OF _ ps an _ check wr reread ident parse rd same])
       (fact kv ir)+
qed

theorem echoed_configuration_read_back_witness:
  "resourceDataFactoryLinkedServiceAzureSQLDatabaseRead testMeta fakeClient blankData writtenLog =
     (None,
      blankData\<lparr>name := ''ls'', resource_group_name := ''rg'', data_factory_name := ''df'',
        tenant_id := ''t'', service_principal_id := ''sp'', use_managed_identity := False,
        additional_properties := [''k'' \<mapsto> ''w''], description := ''sales'',
        key_vault_password := [\<lparr>linked_service_name = ''kv'', secret_name = ''pw''\<rparr>],
        annotations := [''a''], parameters := [''p'' \<mapsto> ''v''],
        integration_runtime_name := ''ir''\<rparr>,
      writtenLog @ [GetCall ''rg'' ''df'' ''ls'' []]) \<and>
   resourceDataFactoryLinkedServiceAzureSQLDatabaseCreateUpdate testMeta caseFoldingClient
     upperCaseConfig [] =
     (None,
      upperCaseConfig\<lparr>rd_Id := testId, name := ''ls'', resource_group_name := ''rg'',
        data_factory_name := ''df''\<rparr>,
      [GetCall ''RG'' ''df'' ''ls'' [],
       CreateOrUpdateCall ''RG'' ''df'' ''ls'' (linkedService testMeta upperCaseConfig) [],
       GetCall ''RG'' ''df'' ''ls'' [], GetCall ''rg'' ''df'' ''ls'' []])"
proof -
  let ?lsid = "\<lparr>ResourceGroup = ''rg'', FactoryName = ''df'', idName = ''ls''\<rparr>"
  let ?b = "linkedService testMeta upperCaseConfig"
  note a = echoed_configuration_read_back [OF test_kv_some(1) test_params(1) test_params(2)
      test_annotations(1) test_annotations(2) test_runtime_some,
      where ?d0.0 = blankData and lsid = ?lsid and client = fakeClient and log = writtenLog
        and resp = "found (linkedService testMeta testConfig) ''ls''", THEN conjunct1]
  note b = echoed_configuration_read_back [OF test_kv_some(2) test_params(1) test_params(2)
      test_annotations(1) test_annotations(2) test_runtime_some,
      where client = caseFoldingClient and log = "[]"
        and ?log1.0 = "[GetCall ''RG'' ''df'' ''ls'' []]" and r = "found ?b ''ls''"
        and ?resp1.0 = "found ?b ''ls''" and i = testId and lsid = ?lsid
        and resp = "found ?b ''ls''", THEN conjunct2]
  show ?thesis
    using a b
    by (simp add: blank_values test_parse fake_get_written found_fields test_values
          folding_check folding_calls upper_values deref_string_def)
qed

subsection \<open>Not found on read and on delete\<close>

text \<open>
  Claim C2. When Read's Get fails and the response is a not-found response, Read sets
  the stored identifier to the empty string and returns no error; when Delete's
  remote call fails with a not-found response, Delete returns no error. Neither
  makes a further call.
\<close>

theorem not_found_is_already_deleted:
  "(LinkedServiceID meta (rd_Id d) = Inr lsid \<longrightarrow>
    Get client log (ResourceGroup lsid) (FactoryName lsid) (idName lsid) [] = (resp, Some e) \<longrightarrow>
    ResponseWasNotFound meta (Response resp) \<longrightarrow>
    resourceDataFactoryLinkedServiceAzureSQLDatabaseRead meta client d log =
      (None, d\<lparr>rd_Id := []\<rparr>,
       log @ [GetCall (ResourceGroup lsid) (FactoryName lsid) (idName lsid) []]))
   \<and>
   (LinkedServiceID meta (rd_Id d) = Inr lsid \<longrightarrow>
    Delete client log (ResourceGroup lsid) (FactoryName lsid) (idName lsid) = (response, Some e) \<longrightarrow>
    ResponseWasNotFound meta response \<longrightarrow>
    resourceDataFactoryLinkedServiceAzureSQLDatabaseDelete meta client d log =
      (None, d, log @ [DeleteCall (ResourceGroup lsid) (FactoryName lsid) (idName lsid)]))"
  by (simp add: resourceDataFactoryLinkedServiceAzureSQLDatabaseRead_def resourceDataFactoryLinkedServiceAzureSQLDatabaseDelete_def)

theorem not_found_is_already_deleted_witness:
  "LinkedServiceID testMeta (rd_Id (testConfig\<lparr>rd_Id := testId\<rparr>)) =
     Inr \<lparr>ResourceGroup = ''rg'', FactoryName = ''df'', idName = ''ls''\<rparr> \<and>
   Get fakeClient [] ''rg'' ''df'' ''ls'' [] = (notFound, Some ''ResourceNotFound'') \<and>
   ResponseWasNotFound testMeta (Response notFound) \<and>
   resourceDataFactoryLinkedServiceAzureSQLDatabaseRead testMeta fakeClient (testConfig\<lparr>rd_Id := testId\<rparr>) [] =
     (None, testConfig\<lparr>rd_Id := []\<rparr>, [GetCall ''rg'' ''df'' ''ls'' []]) \<and>
   Delete fakeClient [] ''rg'' ''df'' ''ls'' = (Some 404, Some ''ResourceNotFound'') \<and>
   ResponseWasNotFound testMeta (Some 404) \<and>
   resourceDataFactoryLinkedServiceAzureSQLDatabaseDelete testMeta fakeClient (testConfig\<lparr>rd_Id := testId\<rparr>) [] =
     (None, testConfig\<lparr>rd_Id := testId\<rparr>, [DeleteCall ''rg'' ''df'' ''ls''])"
  using not_found_is_already_deleted [of testMeta "testConfig\<lparr>rd_Id := testId\<rparr>"
      "\<lparr>ResourceGroup = ''rg'', FactoryName = ''df'', idName = ''ls''\<rparr>"
      fakeClient "[]" notFound "''ResourceNotFound''" "Some 404"]
  by (simp add: testMeta_def testLinkedServiceID_def fakeClient_def notFound_def)

subsection \<open>The authentication mode read back\<close>

text \<open>
  The claim as stated fails: the Get succeeds and the response classifies as an Azure
  SQL Database linked service, but carries no type properties. Read panics at line
  279, and \<open>use_managed_identity\<close>, false before, is not set to true although the
  response carries no service principal identifier.
\<close>

theorem read_without_type_properties_counterexample:
  "Get bareClient [] ''rg'' ''df'' ''ls'' [] = (bareResponse, None) \<and>
   Properties bareResponse = Some (AzureSQLDatabase bareLinkedService) \<and>
   AsAzureSQLDatabaseLinkedService (AzureSQLDatabase bareLinkedService) =
     (Some bareLinkedService, True) \<and>
   TypeProperties bareLinkedService = None \<and>
   use_managed_identity (testConfig\<lparr>rd_Id := testId\<rparr>) = False \<and>
   fst (resourceDataFactoryLinkedServiceAzureSQLDatabaseRead testMeta bareClient
          (testConfig\<lparr>rd_Id := testId\<rparr>) []) = Some Panic \<and>
   use_managed_identity
     (fst (snd (resourceDataFactoryLinkedServiceAzureSQLDatabaseRead testMeta bareClient
                  (testConfig\<lparr>rd_Id := testId\<rparr>) []))) = False"
proof -
  have "Get bareClient [] ''rg'' ''df'' ''ls'' [] = (bareResponse, None)"
    by (simp add: bareClient_def)
  moreover have "Properties bareResponse = Some (AzureSQLDatabase bareLinkedService)"
    by (simp add: bareResponse_def)
  moreover have "TypeProperties bareLinkedService = None"
    by (simp add: bareLinkedService_def)
  ultimately show ?thesis
    by (simp add: bare_read test_values)
qed

text \<open>
  Claim C6, amended. When Read's Get succeeds and the response classifies as an Azure
  SQL Database linked service that carries its type properties, Read returns no error
  and leaves \<open>use_managed_identity\<close> false exactly when the response carries a service
  principal identifier and true otherwise, whatever the attribute held before;
  \<open>service_principal_id\<close> is overwritten only when the response carries one.
\<close>

theorem read_sets_use_managed_identity:
  assumes "LinkedServiceID meta (rd_Id d) = Inr lsid"
    and "Get client log (ResourceGroup lsid) (FactoryName lsid) (idName lsid) [] = (resp, None)"
    and "Properties resp = Some (AzureSQLDatabase sql)"
    and "TypeProperties sql = Some tp"
  shows "fst (resourceDataFactoryLinkedServiceAzureSQLDatabaseRead meta client d log) = None \<and>
     use_managed_identity (fst (snd (resourceDataFactoryLinkedServiceAzureSQLDatabaseRead meta client d log))) =
       (ServicePrincipalID tp = None) \<and>
     service_principal_id (fst (snd (resourceDataFactoryLinkedServiceAzureSQLDatabaseRead meta client d log))) =
       (case ServicePrincipalID tp of None \<Rightarrow> service_principal_id d | Some s \<Rightarrow> s)"
  by (simp add: read_parsed [OF assms(1,2)] attributes_classified [OF assms(3,4)])

theorem read_sets_use_managed_identity_witness:
  "LinkedServiceID testMeta
       (rd_Id (testConfig\<lparr>rd_Id := testId, use_managed_identity := True,
                           service_principal_id := []\<rparr>)) =
     Inr \<lparr>ResourceGroup = ''rg'', FactoryName = ''df'', idName = ''ls''\<rparr> \<and>
   Get fakeClient writtenLog ''rg'' ''df'' ''ls'' [] =
     (found (linkedService testMeta testConfig) ''ls'', None) \<and>
   Properties (found (linkedService testMeta testConfig) ''ls'') =
     Some (AzureSQLDatabase (azureSQLDatabaseLinkedService testMeta testConfig)) \<and>
   TypeProperties (azureSQLDatabaseLinkedService testMeta testConfig) =
     Some (sqlDatabaseProperties testMeta testConfig) \<and>
   ServicePrincipalID (sqlDatabaseProperties testMeta testConfig) = Some ''sp'' \<and>
   fst (resourceDataFactoryLinkedServiceAzureSQLDatabaseRead testMeta fakeClient
          (testConfig\<lparr>rd_Id := testId, use_managed_identity := True,
                       service_principal_id := []\<rparr>) writtenLog) = None \<and>
   use_managed_identity (fst (snd (resourceDataFactoryLinkedServiceAzureSQLDatabaseRead testMeta fakeClient
          (testConfig\<lparr>rd_Id := testId, use_managed_identity := True,
                       service_principal_id := []\<rparr>) writtenLog))) = False \<and>
   service_principal_id (fst (snd (resourceDataFactoryLinkedServiceAzureSQLDatabaseRead testMeta fakeClient
          (testConfig\<lparr>rd_Id := testId, use_managed_identity := True,
                       service_principal_id := []\<rparr>) writtenLog))) = ''sp''"
proof -
  have p: "Properties (found (linkedService testMeta testConfig) ''ls'') =
     Some (AzureSQLDatabase (azureSQLDatabaseLinkedService testMeta testConfig))"
    by (simp add: found_def linkedService_def)
  have t: "TypeProperties (azureSQLDatabaseLinkedService testMeta testConfig) =
     Some (sqlDatabaseProperties testMeta testConfig)"
    by (simp add: azureSQLDatabaseLinkedService_def Let_def)
  have s: "ServicePrincipalID (sqlDatabaseProperties testMeta testConfig) = Some ''sp''"
    by (simp add: sqlDatabaseProperties_def Let_def testConfig_def)
  have i: "LinkedServiceID testMeta
       (rd_Id (testConfig\<lparr>rd_Id := testId, use_managed_identity := True,
                           service_principal_id := []\<rparr>)) =
     Inr \<lparr>ResourceGroup = ''rg'', FactoryName = ''df'', idName = ''ls''\<rparr>"
    by (simp add: test_parse)
  show ?thesis
    using read_sets_use_managed_identity [OF i, of fakeClient writtenLog "found (linkedService testMeta testConfig) ''ls''"
        "azureSQLDatabaseLinkedService testMeta testConfig"
        "sqlDatabaseProperties testMeta testConfig"]
      fake_get_written p t s i
    by simp
qed

subsection \<open>The authentication fields of the request\<close>

text \<open>
  Claim C7. The type properties CreateUpdate builds always carry the tenant. Under
  \<open>use_managed_identity\<close> they carry neither service principal identifier nor key;
  otherwise they carry both, the key as a secure string, whatever the attributes hold
  (an unset attribute reads as the empty string). They are the type properties of the
  body of every create-or-update call the handler makes.
\<close>

theorem request_authentication_fields:
  "Tenant (sqlDatabaseProperties meta d) = Some (tenant_id d) \<and>
   (use_managed_identity d \<longrightarrow>
      ServicePrincipalID (sqlDatabaseProperties meta d) = None \<and>
      ServicePrincipalKey (sqlDatabaseProperties meta d) = None) \<and>
   (\<not> use_managed_identity d \<longrightarrow>
      ServicePrincipalID (sqlDatabaseProperties meta d) = Some (service_principal_id d) \<and>
      ServicePrincipalKey (sqlDatabaseProperties meta d) =
        Some \<lparr>Value = Some (service_principal_key d), secType = TypeSecureString\<rparr>) \<and>
   Properties (linkedService meta d) =
     Some (AzureSQLDatabase (azureSQLDatabaseLinkedService meta d)) \<and>
   TypeProperties (azureSQLDatabaseLinkedService meta d) =
     Some (sqlDatabaseProperties meta d) \<and>
   take (length log) (snd (snd (resourceDataFactoryLinkedServiceAzureSQLDatabaseCreateUpdate meta client d log))) = log \<and>
   (\<forall>c \<in> set (drop (length log) (snd (snd (resourceDataFactoryLinkedServiceAzureSQLDatabaseCreateUpdate meta client d log)))).
      requestBody c = None \<or> requestBody c = Some (linkedService meta d))"
proof -
  have "Tenant (sqlDatabaseProperties meta d) = Some (tenant_id d)"
    by (simp add: sqlDatabaseProperties_def Let_def)
  moreover have "use_managed_identity d \<longrightarrow>
      ServicePrincipalID (sqlDatabaseProperties meta d) = None \<and>
      ServicePrincipalKey (sqlDatabaseProperties meta d) = None"
    by (simp add: sqlDatabaseProperties_def Let_def)
  moreover have "\<not> use_managed_identity d \<longrightarrow>
      ServicePrincipalID (sqlDatabaseProperties meta d) = Some (service_principal_id d) \<and>
      ServicePrincipalKey (sqlDatabaseProperties meta d) =
        Some \<lparr>Value = Some (service_principal_key d), secType = TypeSecureString\<rparr>"
    by (simp add: sqlDatabaseProperties_def Let_def)
  moreover have "Properties (linkedService meta d) =
     Some (AzureSQLDatabase (azureSQLDatabaseLinkedService meta d))"
    by (simp add: linkedService_def)
  moreover have "TypeProperties (azureSQLDatabaseLinkedService meta d) =
     Some (sqlDatabaseProperties meta d)"
    by (simp add: azureSQLDatabaseLinkedService_def Let_def)
  moreover obtain calls where
    "snd (snd (resourceDataFactoryLinkedServiceAzureSQLDatabaseCreateUpdate meta client d log)) = log @ calls"
    "\<forall>c \<in> set calls. requestBody c = None \<or> requestBody c = Some (linkedService meta d)"
    using createUpdate_calls [of meta client d log] by blast
  ultimately show ?thesis by simp
qed

theorem request_authentication_fields_witness:
  "\<not> use_managed_identity testConfig \<and>
   Tenant (sqlDatabaseProperties testMeta testConfig) = Some ''t'' \<and>
   ServicePrincipalID (sqlDatabaseProperties testMeta testConfig) = Some ''sp'' \<and>
   ServicePrincipalKey (sqlDatabaseProperties testMeta testConfig) =
     Some \<lparr>Value = Some ''key'', secType = ''SecureString''\<rparr> \<and>
   ServicePrincipalID
     (sqlDatabaseProperties testMeta
        (testConfig\<lparr>service_principal_id := [], service_principal_key := []\<rparr>)) = Some [] \<and>
   ServicePrincipalKey
     (sqlDatabaseProperties testMeta
        (testConfig\<lparr>service_principal_id := [], service_principal_key := []\<rparr>)) =
     Some \<lparr>Value = Some [], secType = ''SecureString''\<rparr> \<and>
   use_managed_identity (testConfig\<lparr>use_managed_identity := True\<rparr>) \<and>
   Tenant (sqlDatabaseProperties testMeta (testConfig\<lparr>use_managed_identity := True\<rparr>)) =
     Some ''t'' \<and>
   ServicePrincipalID
     (sqlDatabaseProperties testMeta (testConfig\<lparr>use_managed_identity := True\<rparr>)) = None \<and>
   ServicePrincipalKey
     (sqlDatabaseProperties testMeta (testConfig\<lparr>use_managed_identity := True\<rparr>)) = None \<and>
   map requestBody
     (snd (snd (resourceDataFactoryLinkedServiceAzureSQLDatabaseCreateUpdate testMeta fakeClient
                  testConfig []))) =
     [None, Some (linkedService testMeta testConfig), None, None]"
proof -
  have a: "\<not> use_managed_identity testConfig"
    "tenant_id testConfig = ''t''" "service_principal_id testConfig = ''sp''"
    "service_principal_key testConfig = ''key''"
    by (simp_all add: testConfig_def)
  have b: "map requestBody
     (snd (snd (resourceDataFactoryLinkedServiceAzureSQLDatabaseCreateUpdate testMeta fakeClient
                  testConfig []))) =
     [None, Some (linkedService testMeta testConfig), None, None]"
    by (simp add: fake_run)
  show ?thesis
    using request_authentication_fields [of testMeta testConfig "[]" fakeClient]
      request_authentication_fields [of testMeta
        "testConfig\<lparr>service_principal_id := [], service_principal_key := []\<rparr>" "[]" fakeClient]
      request_authentication_fields [of testMeta
        "testConfig\<lparr>use_managed_identity := True\<rparr>" "[]" fakeClient]
    by (simp add: a b TypeSecureString_def)
qed

subsection \<open>What Read never writes\<close>

text \<open>
  Claim C8. Read leaves \<open>connection_string\<close> and \<open>service_principal_key\<close> as they were,
  whatever the service answers; the connection string goes into the request as a
  secure string only, and only when it is set.
\<close>

theorem read_keeps_secrets:
  "connection_string (fst (snd (resourceDataFactoryLinkedServiceAzureSQLDatabaseRead meta client d log))) = connection_string d \<and>
   service_principal_key (fst (snd (resourceDataFactoryLinkedServiceAzureSQLDatabaseRead meta client d log))) =
     service_principal_key d \<and>
   ConnectionString (sqlDatabaseProperties meta d) =
     (if connection_string d = [] then None
      else Some \<lparr>Value = Some (connection_string d), secType = TypeSecureString\<rparr>)"
proof (cases "LinkedServiceID meta (rd_Id d)")
  case (Inl m)
  then show ?thesis
    by (simp add: read_parse_error sqlDatabaseProperties_def Let_def)
next
  case (Inr lsid)
  obtain resp err where
    g: "Get client log (ResourceGroup lsid) (FactoryName lsid) (idName lsid) [] = (resp, err)"
    by (cases "Get client log (ResourceGroup lsid) (FactoryName lsid) (idName lsid) []")
  show ?thesis
    by (simp add: read_parsed [OF Inr g] attributes_frame sqlDatabaseProperties_def Let_def)
qed

theorem read_keeps_secrets_witness:
  "connection_string
     (fst (snd (resourceDataFactoryLinkedServiceAzureSQLDatabaseRead testMeta fakeClient (testConfig\<lparr>rd_Id := testId\<rparr>) writtenLog)))
     = ''Server=x;Database=y'' \<and>
   service_principal_key
     (fst (snd (resourceDataFactoryLinkedServiceAzureSQLDatabaseRead testMeta fakeClient (testConfig\<lparr>rd_Id := testId\<rparr>) writtenLog)))
     = ''key'' \<and>
   ConnectionString (sqlDatabaseProperties testMeta (testConfig\<lparr>rd_Id := testId\<rparr>)) =
     Some \<lparr>Value = Some ''Server=x;Database=y'', secType = ''SecureString''\<rparr>"
  using read_keeps_secrets [of testMeta fakeClient "testConfig\<lparr>rd_Id := testId\<rparr>" writtenLog]
  by (simp add: testConfig_def TypeSecureString_def)

subsection \<open>An existing resource is not overwritten\<close>

text \<open>
  The claim as stated fails: a new resource, a Get that returns an identifier
  together with a decoding error and status 200. CreateUpdate returns the
  checking-for-presence error, not the import error.
\<close>

theorem existing_resource_failed_query_counterexample:
  "IsNewResource testConfig \<and>
   Get garbledClient [] ''rg'' ''df'' ''ls'' [] =
     (notFound\<lparr>Response := Some 200, ID := Some testId\<rparr>, Some ''json: cannot unmarshal'') \<and>
   ID (notFound\<lparr>Response := Some 200, ID := Some testId\<rparr>) = Some testId \<and>
   testId \<noteq> [] \<and>
   fst (resourceDataFactoryLinkedServiceAzureSQLDatabaseCreateUpdate testMeta garbledClient testConfig []) =
     Some (Errorf fmtCheckingPresence
        [Str ''ls'', Str ''df'', Str ''rg'', Verr (Some ''json: cannot unmarshal'')]) \<and>
   fst (resourceDataFactoryLinkedServiceAzureSQLDatabaseCreateUpdate testMeta garbledClient testConfig []) \<noteq>
     Some (ImportAsExistsError resourceTypeName testId)"
proof -
  have c: "checkExisting testMeta garbledClient testConfig [] =
      (Some (Errorf fmtCheckingPresence
         [Str ''ls'', Str ''df'', Str ''rg'', Verr (Some ''json: cannot unmarshal'')]),
       [GetCall ''rg'' ''df'' ''ls'' []])"
    by (simp add: check_new [OF test_triple(4) garbled_get] garbled_response test_not_found test_triple)
  have "resourceDataFactoryLinkedServiceAzureSQLDatabaseCreateUpdate testMeta garbledClient testConfig [] =
      resourceDataFactoryLinkedServiceAzureSQLDatabaseCreateUpdate_body testMeta garbledClient testConfig []"
    by (rule createUpdate_failed) (simp add: body_refused [OF c])
  then have "fst (resourceDataFactoryLinkedServiceAzureSQLDatabaseCreateUpdate testMeta garbledClient testConfig []) =
     Some (Errorf fmtCheckingPresence
        [Str ''ls'', Str ''df'', Str ''rg'', Verr (Some ''json: cannot unmarshal'')])"
    by (simp add: body_refused [OF c])
  then show ?thesis
    using garbled_get by (simp add: garbled_response test_not_found test_triple)
qed

text \<open>
  Claim C3, amended. For a new resource the first remote call of CreateUpdate is the
  Get of the configured triple. When its response carries a non-empty identifier,
  CreateUpdate returns an error, makes no further call and leaves the resource data
  as it was; the error is the import error when the Get succeeded or failed with
  not-found, and the checking-for-presence error when the Get failed otherwise.
\<close>

theorem existing_resource_refused:
  "(IsNewResource d \<longrightarrow>
      take (Suc (length log)) (snd (snd (resourceDataFactoryLinkedServiceAzureSQLDatabaseCreateUpdate meta client d log))) =
        log @ [GetCall (resource_group_name d) (data_factory_name d) (name d) []]) \<and>
   (IsNewResource d \<longrightarrow>
    Get client log (resource_group_name d) (data_factory_name d) (name d) [] = (existing, err) \<longrightarrow>
    ID existing = Some i \<longrightarrow> i \<noteq> [] \<longrightarrow>
      resourceDataFactoryLinkedServiceAzureSQLDatabaseCreateUpdate meta client d log =
        (Some (if err \<noteq> None \<and> \<not> ResponseWasNotFound meta (Response existing)
               then Errorf fmtCheckingPresence
                      [Str (name d), Str (data_factory_name d), Str (resource_group_name d),
                       Verr err]
               else ImportAsExistsError resourceTypeName i),
         d, log @ [GetCall (resource_group_name d) (data_factory_name d) (name d) []]))"
proof (intro conjI impI)
  assume n: "IsNewResource d"
  obtain rest where "snd (snd (resourceDataFactoryLinkedServiceAzureSQLDatabaseCreateUpdate meta client d log)) =
     snd (checkExisting meta client d log) @ rest"
    using createUpdate_starts_with_check [of meta client d log] by blast
  with n show "take (Suc (length log)) (snd (snd (resourceDataFactoryLinkedServiceAzureSQLDatabaseCreateUpdate meta client d log))) =
        log @ [GetCall (resource_group_name d) (data_factory_name d) (name d) []]"
    by (simp add: check_log)
next
  assume n: "IsNewResource d"
    and g: "Get client log (resource_group_name d) (data_factory_name d) (name d) [] =
              (existing, err)"
    and i: "ID existing = Some i" "i \<noteq> []"
  let ?e = "if err \<noteq> None \<and> \<not> ResponseWasNotFound meta (Response existing)
               then Errorf fmtCheckingPresence
                      [Str (name d), Str (data_factory_name d), Str (resource_group_name d),
                       Verr err]
               else ImportAsExistsError resourceTypeName i"
  have c: "checkExisting meta client d log =
      (Some ?e, log @ [GetCall (resource_group_name d) (data_factory_name d) (name d) []])"
    using i by (simp add: check_new [OF n g])
  have "resourceDataFactoryLinkedServiceAzureSQLDatabaseCreateUpdate meta client d log = resourceDataFactoryLinkedServiceAzureSQLDatabaseCreateUpdate_body meta client d log"
    by (rule createUpdate_failed) (simp add: body_refused [OF c])
  then show "resourceDataFactoryLinkedServiceAzureSQLDatabaseCreateUpdate meta client d log =
      (Some ?e, d, log @ [GetCall (resource_group_name d) (data_factory_name d) (name d) []])"
    by (simp add: body_refused [OF c])
qed

theorem existing_resource_refused_witness:
  "IsNewResource testConfig \<and>
   Get fakeClient writtenLog ''rg'' ''df'' ''ls'' [] =
     (found (linkedService testMeta testConfig) ''ls'', None) \<and>
   ID (found (linkedService testMeta testConfig) ''ls'') = Some testId \<and> testId \<noteq> [] \<and>
   resourceDataFactoryLinkedServiceAzureSQLDatabaseCreateUpdate testMeta fakeClient testConfig writtenLog =
     (Some (ImportAsExistsError resourceTypeName testId), testConfig,
      writtenLog @ [GetCall ''rg'' ''df'' ''ls'' []]) \<and>
   resourceDataFactoryLinkedServiceAzureSQLDatabaseCreateUpdate testMeta garbledClient testConfig [] =
     (Some (Errorf fmtCheckingPresence
        [Str ''ls'', Str ''df'', Str ''rg'', Verr (Some ''json: cannot unmarshal'')]),
      testConfig, [GetCall ''rg'' ''df'' ''ls'' []])"
  using existing_resource_refused [where meta = testMeta and d = testConfig and client = fakeClient
      and log = writtenLog and existing = "found (linkedService testMeta testConfig) ''ls''"
      and err = None and i = testId]
    existing_resource_refused [where meta = testMeta and d = testConfig and client = garbledClient
      and log = "[]" and existing = "notFound\<lparr>Response := Some 200, ID := Some testId\<rparr>"
      and err = "Some ''json: cannot unmarshal''" and i = testId]
    garbled_get
  by (simp add: fake_get_written found_fields garbled_response test_not_found test_triple)

subsection \<open>Remote failures\<close>

text \<open>
  Claim C4. A failed remote call that is not excused as not-found ends the handler:
  it returns an error made by \<^verbatim>\<open>fmt.Errorf\<close> whose arguments are the name, the factory and
  the resource group the call addressed, and the failed call is the last one made.
  The six places: Read's Get, Delete's Delete, and in CreateUpdate the existence
  check, the write, the re-read (where not-found is a failure too) and the Get of the
  final Read.
\<close>

theorem remote_failure_returned_immediately:
  "(LinkedServiceID meta (rd_Id d) = Inr lsid \<longrightarrow>
    Get client log (ResourceGroup lsid) (FactoryName lsid) (idName lsid) [] = (resp, Some e) \<longrightarrow>
    \<not> ResponseWasNotFound meta (Response resp) \<longrightarrow>
    resourceDataFactoryLinkedServiceAzureSQLDatabaseRead meta client d log =
       (Some (Errorf fmtRetrieving
         [Str (idName lsid), Str (FactoryName lsid), Str (ResourceGroup lsid),
          Verr (Some e)]),
        d, log @ [GetCall (ResourceGroup lsid) (FactoryName lsid) (idName lsid) []]) \<and>
     mentions (the (fst (resourceDataFactoryLinkedServiceAzureSQLDatabaseRead meta client d log)))
       (ResourceGroup lsid) (FactoryName lsid) (idName lsid)) \<and>
   (LinkedServiceID meta (rd_Id d) = Inr lsid \<longrightarrow>
    Delete client log (ResourceGroup lsid) (FactoryName lsid) (idName lsid) = (response, Some e) \<longrightarrow>
    \<not> ResponseWasNotFound meta response \<longrightarrow>
    resourceDataFactoryLinkedServiceAzureSQLDatabaseDelete meta client d log =
       (Some (Errorf fmtDeleting
         [Str (idName lsid), Str (FactoryName lsid), Str (ResourceGroup lsid),
          Verr (Some e)]),
        d, log @ [DeleteCall (ResourceGroup lsid) (FactoryName lsid) (idName lsid)]) \<and>
     mentions (the (fst (resourceDataFactoryLinkedServiceAzureSQLDatabaseDelete meta client d log)))
       (ResourceGroup lsid) (FactoryName lsid) (idName lsid)) \<and>
   (IsNewResource d \<longrightarrow>
    Get client log (resource_group_name d) (data_factory_name d) (name d) [] = (resp, Some e) \<longrightarrow>
    \<not> ResponseWasNotFound meta (Response resp) \<longrightarrow>
    resourceDataFactoryLinkedServiceAzureSQLDatabaseCreateUpdate meta client d log =
       (Some (Errorf fmtCheckingPresence
         [Str (name d), Str (data_factory_name d), Str (resource_group_name d),
          Verr (Some e)]),
        d, log @ [GetCall (resource_group_name d) (data_factory_name d) (name d) []]) \<and>
     mentions (the (fst (resourceDataFactoryLinkedServiceAzureSQLDatabaseCreateUpdate meta client d log)))
       (resource_group_name d) (data_factory_name d) (name d)) \<and>
   (checkExisting meta client d log = (None, log1) \<longrightarrow>
    CreateOrUpdate client log1 (resource_group_name d) (data_factory_name d) (name d)
      (linkedService meta d) [] = (r, Some e) \<longrightarrow>
    resourceDataFactoryLinkedServiceAzureSQLDatabaseCreateUpdate meta client d log =
       (Some (Errorf fmtCreatingUpdating
         [Str (name d), Str (data_factory_name d), Str (resource_group_name d),
          Verr (Some e)]),
        d, log1 @ [CreateOrUpdateCall (resource_group_name d) (data_factory_name d) (name d)
                  (linkedService meta d) []]) \<and>
     mentions (the (fst (resourceDataFactoryLinkedServiceAzureSQLDatabaseCreateUpdate meta client d log)))
       (resource_group_name d) (data_factory_name d) (name d)) \<and>
   (checkExisting meta client d log = (None, log1) \<longrightarrow>
    CreateOrUpdate client log1 (resource_group_name d) (data_factory_name d) (name d)
      (linkedService meta d) [] = (r, None) \<longrightarrow>
    Get client
      (log1 @ [CreateOrUpdateCall (resource_group_name d) (data_factory_name d) (name d)
                  (linkedService meta d) []])
      (resource_group_name d) (data_factory_name d) (name d) [] = (resp, Some e) \<longrightarrow>
    resourceDataFactoryLinkedServiceAzureSQLDatabaseCreateUpdate meta client d log =
       (Some (Errorf fmtRetrieving
         [Str (name d), Str (data_factory_name d), Str (resource_group_name d),
          Verr (Some e)]),
        d, log1 @ [CreateOrUpdateCall (resource_group_name d) (data_factory_name d) (name d)
                  (linkedService meta d) [],
                GetCall (resource_group_name d) (data_factory_name d) (name d) []]) \<and>
     mentions (the (fst (resourceDataFactoryLinkedServiceAzureSQLDatabaseCreateUpdate meta client d log)))
       (resource_group_name d) (data_factory_name d) (name d)) \<and>
   (resourceDataFactoryLinkedServiceAzureSQLDatabaseCreateUpdate_body meta client d log = (None, d1, log3) \<longrightarrow>
    LinkedServiceID meta (rd_Id d1) = Inr lsid \<longrightarrow>
    Get client log3 (ResourceGroup lsid) (FactoryName lsid) (idName lsid) [] = (resp, Some e) \<longrightarrow>
    \<not> ResponseWasNotFound meta (Response resp) \<longrightarrow>
    resourceDataFactoryLinkedServiceAzureSQLDatabaseCreateUpdate meta client d log =
       (Some (Errorf fmtRetrieving
         [Str (idName lsid), Str (FactoryName lsid), Str (ResourceGroup lsid),
          Verr (Some e)]),
        d1, log3 @ [GetCall (ResourceGroup lsid) (FactoryName lsid) (idName lsid) []]) \<and>
     mentions (the (fst (resourceDataFactoryLinkedServiceAzureSQLDatabaseCreateUpdate meta client d log)))
       (ResourceGroup lsid) (FactoryName lsid) (idName lsid))"
proof (intro conjI impI)
  assume h1: "LinkedServiceID meta (rd_Id d) = Inr lsid"
    and h2: "Get client log (ResourceGroup lsid) (FactoryName lsid) (idName lsid) [] = (resp, Some e)"
    and h3: "\<not> ResponseWasNotFound meta (Response resp)"
  show "resourceDataFactoryLinkedServiceAzureSQLDatabaseRead meta client d log =
       (Some (Errorf fmtRetrieving
         [Str (idName lsid), Str (FactoryName lsid), Str (ResourceGroup lsid),
          Verr (Some e)]),
        d, log @ [GetCall (ResourceGroup lsid) (FactoryName lsid) (idName lsid) []])"
    using h3 by (simp add: read_parsed [OF h1 h2])
next
  assume h1: "LinkedServiceID meta (rd_Id d) = Inr lsid"
    and h2: "Get client log (ResourceGroup lsid) (FactoryName lsid) (idName lsid) [] = (resp, Some e)"
    and h3: "\<not> ResponseWasNotFound meta (Response resp)"
  show "mentions (the (fst (resourceDataFactoryLinkedServiceAzureSQLDatabaseRead meta client d log)))
       (ResourceGroup lsid) (FactoryName lsid) (idName lsid)"
    using h3 by (simp add: read_parsed [OF h1 h2])
next
  assume h1: "LinkedServiceID meta (rd_Id d) = Inr lsid"
    and h2: "Delete client log (ResourceGroup lsid) (FactoryName lsid) (idName lsid) = (response, Some e)"
    and h3: "\<not> ResponseWasNotFound meta response"
  show "resourceDataFactoryLinkedServiceAzureSQLDatabaseDelete meta client d log =
       (Some (Errorf fmtDeleting
         [Str (idName lsid), Str (FactoryName lsid), Str (ResourceGroup lsid),
          Verr (Some e)]),
        d, log @ [DeleteCall (ResourceGroup lsid) (FactoryName lsid) (idName lsid)])"
    using h3 by (simp add: delete_parsed [OF h1 h2])
next
  assume h1: "LinkedServiceID meta (rd_Id d) = Inr lsid"
    and h2: "Delete client log (ResourceGroup lsid) (FactoryName lsid) (idName lsid) = (response, Some e)"
    and h3: "\<not> ResponseWasNotFound meta response"
  show "mentions (the (fst (resourceDataFactoryLinkedServiceAzureSQLDatabaseDelete meta client d log)))
       (ResourceGroup lsid) (FactoryName lsid) (idName lsid)"
    using h3 by (simp add: delete_parsed [OF h1 h2])
next
  assume h1: "IsNewResource d"
    and h2: "Get client log (resource_group_name d) (data_factory_name d) (name d) [] = (resp, Some e)"
    and h3: "\<not> ResponseWasNotFound meta (Response resp)"
  have c: "checkExisting meta client d log =
      (Some (Errorf fmtCheckingPresence
         [Str (name d), Str (data_factory_name d), Str (resource_group_name d),
          Verr (Some e)]),
       log @ [GetCall (resource_group_name d) (data_factory_name d) (name d) []])"
    using h3 by (simp add: check_new [OF h1 h2])
  have run: "resourceDataFactoryLinkedServiceAzureSQLDatabaseCreateUpdate meta client d log =
      resourceDataFactoryLinkedServiceAzureSQLDatabaseCreateUpdate_body meta client d log"
    by (rule createUpdate_failed) (simp add: body_refused [OF c])
  show "resourceDataFactoryLinkedServiceAzureSQLDatabaseCreateUpdate meta client d log =
       (Some (Errorf fmtCheckingPresence
         [Str (name d), Str (data_factory_name d), Str (resource_group_name d),
          Verr (Some e)]),
        d, log @ [GetCall (resource_group_name d) (data_factory_name d) (name d) []])"
    by (simp add: run body_refused [OF c])
next
  assume h1: "IsNewResource d"
    and h2: "Get client log (resource_group_name d) (data_factory_name d) (name d) [] = (resp, Some e)"
    and h3: "\<not> ResponseWasNotFound meta (Response resp)"
  have c: "checkExisting meta client d log =
      (Some (Errorf fmtCheckingPresence
         [Str (name d), Str (data_factory_name d), Str (resource_group_name d),
          Verr (Some e)]),
       log @ [GetCall (resource_group_name d) (data_factory_name d) (name d) []])"
    using h3 by (simp add: check_new [OF h1 h2])
  have run: "resourceDataFactoryLinkedServiceAzureSQLDatabaseCreateUpdate meta client d log =
      resourceDataFactoryLinkedServiceAzureSQLDatabaseCreateUpdate_body meta client d log"
    by (rule createUpdate_failed) (simp add: body_refused [OF c])
  show "mentions (the (fst (resourceDataFactoryLinkedServiceAzureSQLDatabaseCreateUpdate meta client d log)))
       (resource_group_name d) (data_factory_name d) (name d)"
    by (simp add: run body_refused [OF c])
next
  assume h1: "checkExisting meta client d log = (None, log1)"
    and h2: "CreateOrUpdate client log1 (resource_group_name d) (data_factory_name d) (name d)
      (linkedService meta d) [] = (r, Some e)"
  obtain resp' gerr where
    g: "Get client
      (log1 @ [CreateOrUpdateCall (resource_group_name d) (data_factory_name d) (name d)
                  (linkedService meta d) []])
      (resource_group_name d) (data_factory_name d) (name d) [] = (resp', gerr)"
    by (cases "Get client
      (log1 @ [CreateOrUpdateCall (resource_group_name d) (data_factory_name d) (name d)
                  (linkedService meta d) []])
      (resource_group_name d) (data_factory_name d) (name d) []")
  have run: "resourceDataFactoryLinkedServiceAzureSQLDatabaseCreateUpdate meta client d log =
      resourceDataFactoryLinkedServiceAzureSQLDatabaseCreateUpdate_body meta client d log"
    by (rule createUpdate_failed) (simp add: body_checked [OF h1 h2 g])
  show "resourceDataFactoryLinkedServiceAzureSQLDatabaseCreateUpdate meta client d log =
       (Some (Errorf fmtCreatingUpdating
         [Str (name d), Str (data_factory_name d), Str (resource_group_name d),
          Verr (Some e)]),
        d, log1 @ [CreateOrUpdateCall (resource_group_name d) (data_factory_name d) (name d)
                  (linkedService meta d) []])"
    by (simp add: run body_checked [OF h1 h2 g])
next
  assume h1: "checkExisting meta client d log = (None, log1)"
    and h2: "CreateOrUpdate client log1 (resource_group_name d) (data_factory_name d) (name d)
      (linkedService meta d) [] = (r, Some e)"
  obtain resp' gerr where
    g: "Get client
      (log1 @ [CreateOrUpdateCall (resource_group_name d) (data_factory_name d) (name d)
                  (linkedService meta d) []])
      (resource_group_name d) (data_factory_name d) (name d) [] = (resp', gerr)"
    by (cases "Get client
      (log1 @ [CreateOrUpdateCall (resource_group_name d) (data_factory_name d) (name d)
                  (linkedService meta d) []])
      (resource_group_name d) (data_factory_name d) (name d) []")
  have run: "resourceDataFactoryLinkedServiceAzureSQLDatabaseCreateUpdate meta client d log =
      resourceDataFactoryLinkedServiceAzureSQLDatabaseCreateUpdate_body meta client d log"
    by (rule createUpdate_failed) (simp add: body_checked [OF h1 h2 g])
  show "mentions (the (fst (resourceDataFactoryLinkedServiceAzureSQLDatabaseCreateUpdate meta client d log)))
       (resource_group_name d) (data_factory_name d) (name d)"
    by (simp add: run body_checked [OF h1 h2 g])
next
  assume h1: "checkExisting meta client d log = (None, log1)"
    and h2: "CreateOrUpdate client log1 (resource_group_name d) (data_factory_name d) (name d)
      (linkedService meta d) [] = (r, None)"
    and h3: "Get client
      (log1 @ [CreateOrUpdateCall (resource_group_name d) (data_factory_name d) (name d)
                  (linkedService meta d) []])
      (resource_group_name d) (data_factory_name d) (name d) [] = (resp, Some e)"
  have run: "resourceDataFactoryLinkedServiceAzureSQLDatabaseCreateUpdate meta client d log =
      resourceDataFactoryLinkedServiceAzureSQLDatabaseCreateUpdate_body meta client d log"
    by (rule createUpdate_failed) (simp add: body_checked [OF h1 h2 h3])
  show "resourceDataFactoryLinkedServiceAzureSQLDatabaseCreateUpdate meta client d log =
       (Some (Errorf fmtRetrieving
         [Str (name d), Str (data_factory_name d), Str (resource_group_name d),
          Verr (Some e)]),
        d, log1 @ [CreateOrUpdateCall (resource_group_name d) (data_factory_name d) (name d)
                  (linkedService meta d) [],
                GetCall (resource_group_name d) (data_factory_name d) (name d) []])"
    by (simp add: run body_checked [OF h1 h2 h3])
next
  assume h1: "checkExisting meta client d log = (None, log1)"
    and h2: "CreateOrUpdate client log1 (resource_group_name d) (data_factory_name d) (name d)
      (linkedService meta d) [] = (r, None)"
    and h3: "Get client
      (log1 @ [CreateOrUpdateCall (resource_group_name d) (data_factory_name d) (name d)
                  (linkedService meta d) []])
      (resource_group_name d) (data_factory_name d) (name d) [] = (resp, Some e)"
  have run: "resourceDataFactoryLinkedServiceAzureSQLDatabaseCreateUpdate meta client d log =
      resourceDataFactoryLinkedServiceAzureSQLDatabaseCreateUpdate_body meta client d log"
    by (rule createUpdate_failed) (simp add: body_checked [OF h1 h2 h3])
  show "mentions (the (fst (resourceDataFactoryLinkedServiceAzureSQLDatabaseCreateUpdate meta client d log)))
       (resource_group_name d) (data_factory_name d) (name d)"
    by (simp add: run body_checked [OF h1 h2 h3])
next
  assume h1: "resourceDataFactoryLinkedServiceAzureSQLDatabaseCreateUpdate_body meta client d log = (None, d1, log3)"
    and h2: "LinkedServiceID meta (rd_Id d1) = Inr lsid"
    and h3: "Get client log3 (ResourceGroup lsid) (FactoryName lsid) (idName lsid) [] = (resp, Some e)"
    and h4: "\<not> ResponseWasNotFound meta (Response resp)"
  have run: "resourceDataFactoryLinkedServiceAzureSQLDatabaseCreateUpdate meta client d log = resourceDataFactoryLinkedServiceAzureSQLDatabaseRead meta client d1 log3"
    by (simp add: createUpdate_read h1)
  show "resourceDataFactoryLinkedServiceAzureSQLDatabaseCreateUpdate meta client d log =
       (Some (Errorf fmtRetrieving
         [Str (idName lsid), Str (FactoryName lsid), Str (ResourceGroup lsid),
          Verr (Some e)]),
        d1, log3 @ [GetCall (ResourceGroup lsid) (FactoryName lsid) (idName lsid) []])"
    using h4 by (simp add: run read_parsed [OF h2 h3])
next
  assume h1: "resourceDataFactoryLinkedServiceAzureSQLDatabaseCreateUpdate_body meta client d log = (None, d1, log3)"
    and h2: "LinkedServiceID meta (rd_Id d1) = Inr lsid"
    and h3: "Get client log3 (ResourceGroup lsid) (FactoryName lsid) (idName lsid) [] = (resp, Some e)"
    and h4: "\<not> ResponseWasNotFound meta (Response resp)"
  have run: "resourceDataFactoryLinkedServiceAzureSQLDatabaseCreateUpdate meta client d log = resourceDataFactoryLinkedServiceAzureSQLDatabaseRead meta client d1 log3"
    by (simp add: createUpdate_read h1)
  show "mentions (the (fst (resourceDataFactoryLinkedServiceAzureSQLDatabaseCreateUpdate meta client d log)))
       (ResourceGroup lsid) (FactoryName lsid) (idName lsid)"
    using h4 by (simp add: run read_parsed [OF h2 h3])
qed

theorem remote_failure_returned_immediately_witness:
  "resourceDataFactoryLinkedServiceAzureSQLDatabaseRead testMeta (failingAt 0) (testConfig\<lparr>rd_Id := testId\<rparr>) [] =
     (Some (Errorf fmtRetrieving
        [Str ''ls'', Str ''df'', Str ''rg'', Verr (Some ''InternalServerError'')]),
      testConfig\<lparr>rd_Id := testId\<rparr>, [GetCall ''rg'' ''df'' ''ls'' []]) \<and>
   resourceDataFactoryLinkedServiceAzureSQLDatabaseDelete testMeta (failingAt 0) (testConfig\<lparr>rd_Id := testId\<rparr>) [] =
     (Some (Errorf fmtDeleting
        [Str ''ls'', Str ''df'', Str ''rg'', Verr (Some ''InternalServerError'')]),
      testConfig\<lparr>rd_Id := testId\<rparr>, [DeleteCall ''rg'' ''df'' ''ls'']) \<and>
   resourceDataFactoryLinkedServiceAzureSQLDatabaseCreateUpdate testMeta (failingAt 0) testConfig [] =
     (Some (Errorf fmtCheckingPresence
        [Str ''ls'', Str ''df'', Str ''rg'', Verr (Some ''InternalServerError'')]),
      testConfig, [GetCall ''rg'' ''df'' ''ls'' []]) \<and>
   resourceDataFactoryLinkedServiceAzureSQLDatabaseCreateUpdate testMeta (failingAt 1) testConfig [] =
     (Some (Errorf fmtCreatingUpdating
        [Str ''ls'', Str ''df'', Str ''rg'', Verr (Some ''InternalServerError'')]),
      testConfig,
      [GetCall ''rg'' ''df'' ''ls'' [],
       CreateOrUpdateCall ''rg'' ''df'' ''ls'' (linkedService testMeta testConfig) []]) \<and>
   resourceDataFactoryLinkedServiceAzureSQLDatabaseCreateUpdate testMeta (failingAt 2) testConfig [] =
     (Some (Errorf fmtRetrieving
        [Str ''ls'', Str ''df'', Str ''rg'', Verr (Some ''InternalServerError'')]),
      testConfig,
      [GetCall ''rg'' ''df'' ''ls'' [],
       CreateOrUpdateCall ''rg'' ''df'' ''ls'' (linkedService testMeta testConfig) [],
       GetCall ''rg'' ''df'' ''ls'' []]) \<and>
   resourceDataFactoryLinkedServiceAzureSQLDatabaseCreateUpdate testMeta (failingAt 3) testConfig [] =
     (Some (Errorf fmtRetrieving
        [Str ''ls'', Str ''df'', Str ''rg'', Verr (Some ''InternalServerError'')]),
      testConfig\<lparr>rd_Id := testId\<rparr>,
      [GetCall ''rg'' ''df'' ''ls'' [],
       CreateOrUpdateCall ''rg'' ''df'' ''ls'' (linkedService testMeta testConfig) [],
       GetCall ''rg'' ''df'' ''ls'' [], GetCall ''rg'' ''df'' ''ls'' []])"
proof -
  let ?lsid = "\<lparr>ResourceGroup = ''rg'', FactoryName = ''df'', idName = ''ls''\<rparr>"
  let ?stored = "testConfig\<lparr>rd_Id := testId\<rparr>"
  let ?G = "GetCall ''rg'' ''df'' ''ls'' []"
  let ?W = "CreateOrUpdateCall ''rg'' ''df'' ''ls'' (linkedService testMeta testConfig) []"
  have g0: "Get (failingAt 0) [] ''rg'' ''df'' ''ls'' [] =
      (serverError, Some ''InternalServerError'')"
    by (simp add: failingAt_def)
  have d0: "Delete (failingAt 0) [] ''rg'' ''df'' ''ls'' = (Some 500, Some ''InternalServerError'')"
    by (simp add: failingAt_def)
  have c1: "checkExisting testMeta (failingAt (Suc 0)) testConfig [] = (None, [?G])"
    by (simp add: failing_check)
  have w1: "CreateOrUpdate (failingAt (Suc 0)) [?G] ''rg'' ''df'' ''ls''
      (linkedService testMeta testConfig) [] = (serverError, Some ''InternalServerError'')"
    by (simp add: failingAt_def)
  have c2: "checkExisting testMeta (failingAt 2) testConfig [] = (None, [?G])"
    by (simp add: failing_check)
  have w2: "CreateOrUpdate (failingAt 2) [?G] ''rg'' ''df'' ''ls''
      (linkedService testMeta testConfig) [] =
      (found (linkedService testMeta testConfig) ''ls'', None)"
    by (simp add: failingAt_def fakeClient_def)
  have g2: "Get (failingAt 2) [?G, ?W] ''rg'' ''df'' ''ls'' [] =
      (serverError, Some ''InternalServerError'')"
    by (simp add: failingAt_def)
  have g3: "Get (failingAt 3) [?G, ?W, ?G] ''rg'' ''df'' ''ls'' [] =
      (serverError, Some ''InternalServerError'')"
    by (simp add: failingAt_def)
  show ?thesis
    using remote_failure_returned_immediately [where meta = testMeta and d = ?stored and lsid = ?lsid and client = "failingAt 0"
        and log = "[]" and resp = serverError and e = "''InternalServerError''"
        and response = "Some 500"]
      remote_failure_returned_immediately [where meta = testMeta and d = testConfig and client = "failingAt 0"
        and log = "[]" and resp = serverError and e = "''InternalServerError''"]
      remote_failure_returned_immediately [where meta = testMeta and d = testConfig and client = "failingAt 1"
        and log = "[]" and ?log1.0 = "[?G]" and r = serverError
        and e = "''InternalServerError''"]
      remote_failure_returned_immediately [where meta = testMeta and d = testConfig and client = "failingAt 2"
        and log = "[]" and ?log1.0 = "[?G]"
        and r = "found (linkedService testMeta testConfig) ''ls''"
        and resp = serverError and e = "''InternalServerError''"]
      remote_failure_returned_immediately [where meta = testMeta and d = testConfig and client = "failingAt 3"
        and log = "[]" and ?d1.0 = ?stored and ?log3.0 = "[?G, ?W, ?G]" and lsid = ?lsid
        and resp = serverError and e = "''InternalServerError''"]
    by (simp add: test_parse g0 d0 c1 w1 c2 w2 g2 g3 failing_body server_error test_triple)
qed

subsection \<open>The identifier CreateUpdate stores\<close>

text \<open>
  The claim as stated fails: CreateUpdate succeeds, the re-read after the write
  returned an identifier, and the service answers not-found to the Get of the final
  Read. The identifier at return is the empty string, not the one returned.
\<close>

theorem createUpdate_identifier_cleared_counterexample:
  "fst (resourceDataFactoryLinkedServiceAzureSQLDatabaseCreateUpdate testMeta vanishingClient testConfig []) = None \<and>
   Get vanishingClient
     [GetCall ''rg'' ''df'' ''ls'' [],
      CreateOrUpdateCall ''rg'' ''df'' ''ls'' (linkedService testMeta testConfig) []]
     ''rg'' ''df'' ''ls'' [] = (found notFound ''ls'', None) \<and>
   ID (found notFound ''ls'') = Some testId \<and>
   testId \<noteq> [] \<and>
   rd_Id (fst (snd (resourceDataFactoryLinkedServiceAzureSQLDatabaseCreateUpdate testMeta vanishingClient testConfig []))) = []"
  by (simp add: vanishing_run vanishing_reread found_fields garbled_response)

text \<open>
  Claim C5, amended. A CreateUpdate that returns no error has passed the existence
  check, written the resource, re-read it without error and found an identifier in
  the response; it stored that identifier and ran Read on the result. The identifier
  parses, and at return the stored identifier is the one returned, unless the Get of
  that Read failed (with not-found, or CreateUpdate would have failed): then it is
  the empty string. When the re-read carries no identifier, CreateUpdate returns the
  cannot-read error and leaves the resource data, identifier included, as it was.
\<close>

theorem createUpdate_stores_identifier:
  "(fst (resourceDataFactoryLinkedServiceAzureSQLDatabaseCreateUpdate meta client d log) = None \<longrightarrow>
     (\<exists>l r resp i lsid.
        checkExisting meta client d log = (None, l) \<and>
        CreateOrUpdate client l (resource_group_name d) (data_factory_name d) (name d)
          (linkedService meta d) [] = (r, None) \<and>
        Get client
          (l @ [CreateOrUpdateCall (resource_group_name d) (data_factory_name d) (name d)
                  (linkedService meta d) []])
          (resource_group_name d) (data_factory_name d) (name d) [] = (resp, None) \<and>
        ID resp = Some i \<and>
        resourceDataFactoryLinkedServiceAzureSQLDatabaseCreateUpdate meta client d log =
          resourceDataFactoryLinkedServiceAzureSQLDatabaseRead meta client (d\<lparr>rd_Id := i\<rparr>)
            (l @ [CreateOrUpdateCall (resource_group_name d) (data_factory_name d) (name d)
                    (linkedService meta d) [],
                  GetCall (resource_group_name d) (data_factory_name d) (name d) []]) \<and>
        LinkedServiceID meta i = Inr lsid \<and>
        rd_Id (fst (snd (resourceDataFactoryLinkedServiceAzureSQLDatabaseCreateUpdate meta client d log))) =
          (if snd (Get client
                 (l @ [CreateOrUpdateCall (resource_group_name d) (data_factory_name d)
                         (name d) (linkedService meta d) [],
                       GetCall (resource_group_name d) (data_factory_name d) (name d) []])
                 (ResourceGroup lsid) (FactoryName lsid) (idName lsid) []) = None
           then i else []))) \<and>
   (checkExisting meta client d log = (None, log1) \<longrightarrow>
    CreateOrUpdate client log1 (resource_group_name d) (data_factory_name d) (name d)
      (linkedService meta d) [] = (r1, None) \<longrightarrow>
    Get client
      (log1 @ [CreateOrUpdateCall (resource_group_name d) (data_factory_name d) (name d)
                 (linkedService meta d) []])
      (resource_group_name d) (data_factory_name d) (name d) [] = (resp1, None) \<longrightarrow>
    ID resp1 = None \<longrightarrow>
      resourceDataFactoryLinkedServiceAzureSQLDatabaseCreateUpdate meta client d log =
        (Some (Errorf fmtCannotRead
           [Str (name d), Str (data_factory_name d), Str (resource_group_name d), Verr None]),
         d,
         log1 @ [CreateOrUpdateCall (resource_group_name d) (data_factory_name d) (name d)
                   (linkedService meta d) [],
                 GetCall (resource_group_name d) (data_factory_name d) (name d) []]))"
proof (intro conjI impI)
  let ?body = "resourceDataFactoryLinkedServiceAzureSQLDatabaseCreateUpdate_body meta client d log"
  let ?G = "GetCall (resource_group_name d) (data_factory_name d) (name d) []"
  let ?W = "CreateOrUpdateCall (resource_group_name d) (data_factory_name d) (name d)
              (linkedService meta d) []"
  assume ok: "fst (resourceDataFactoryLinkedServiceAzureSQLDatabaseCreateUpdate meta client d log) = None"
  have bn: "fst ?body = None"
  proof (cases "fst ?body")
    case None
    then show ?thesis .
  next
    case (Some e)
    then have "resourceDataFactoryLinkedServiceAzureSQLDatabaseCreateUpdate meta client d log = ?body"
      by (rule createUpdate_failed)
    with ok Some show ?thesis by simp
  qed
  obtain e l where c: "checkExisting meta client d log = (e, l)"
    by (cases "checkExisting meta client d log")
  have en: "e = None"
  proof (cases e)
    case None
    then show ?thesis .
  next
    case (Some err)
    with c have "?body = (Some err, d, l)" by (simp add: body_refused)
    with bn show ?thesis by simp
  qed
  with c have c': "checkExisting meta client d log = (None, l)" by simp
  obtain r werr where
    w: "CreateOrUpdate client l (resource_group_name d) (data_factory_name d) (name d)
          (linkedService meta d) [] = (r, werr)"
    by (cases "CreateOrUpdate client l (resource_group_name d) (data_factory_name d)
          (name d) (linkedService meta d) []")
  obtain resp gerr where
    g: "Get client (l @ [?W])
          (resource_group_name d) (data_factory_name d) (name d) [] = (resp, gerr)"
    by (cases "Get client (l @ [?W])
          (resource_group_name d) (data_factory_name d) (name d) []")
  note b = body_checked [OF c' w g]
  have wn: "werr = None"
    using bn by (cases werr) (simp_all add: b)
  have gn: "gerr = None"
    using bn wn by (cases gerr) (simp_all add: b)
  obtain i where i: "ID resp = Some i"
    using bn wn gn by (cases "ID resp") (simp_all add: b)
  have body: "?body = (None, d\<lparr>rd_Id := i\<rparr>, l @ [?W, ?G])"
    by (simp add: b wn gn i)
  have run: "resourceDataFactoryLinkedServiceAzureSQLDatabaseCreateUpdate meta client d log =
      resourceDataFactoryLinkedServiceAzureSQLDatabaseRead meta client (d\<lparr>rd_Id := i\<rparr>) (l @ [?W, ?G])"
    by (simp add: createUpdate_read body)
  obtain lsid where p: "LinkedServiceID meta i = Inr lsid"
  proof (cases "LinkedServiceID meta i")
    case (Inl m)
    then have "resourceDataFactoryLinkedServiceAzureSQLDatabaseRead meta client (d\<lparr>rd_Id := i\<rparr>) (l @ [?W, ?G]) =
        (Some (External m), d\<lparr>rd_Id := i\<rparr>, l @ [?W, ?G])"
      by (simp add: read_parse_error)
    with ok run show ?thesis by simp
  next
    case (Inr lsid)
    then show ?thesis by (rule that)
  qed
  then have p': "LinkedServiceID meta (rd_Id (d\<lparr>rd_Id := i\<rparr>)) = Inr lsid" by simp
  obtain resp' rerr where
    g': "Get client (l @ [?W, ?G]) (ResourceGroup lsid) (FactoryName lsid) (idName lsid) [] =
           (resp', rerr)"
    by (cases "Get client (l @ [?W, ?G]) (ResourceGroup lsid) (FactoryName lsid)
           (idName lsid) []")
  note rd = read_parsed [OF p' g']
  have "rd_Id (fst (snd (resourceDataFactoryLinkedServiceAzureSQLDatabaseCreateUpdate meta client d log))) =
      (if rerr = None then i else [])"
  proof (cases rerr)
    case None
    then show ?thesis by (simp add: run rd attributes_frame)
  next
    case (Some x)
    then have "ResponseWasNotFound meta (Response resp')"
      using ok by (cases "ResponseWasNotFound meta (Response resp')") (simp_all add: run rd)
    with Some show ?thesis by (simp add: run rd)
  qed
  then have "rd_Id (fst (snd (resourceDataFactoryLinkedServiceAzureSQLDatabaseCreateUpdate meta client d log))) =
      (if snd (Get client (l @ [?W, ?G]) (ResourceGroup lsid) (FactoryName lsid)
                 (idName lsid) []) = None
       then i else [])"
    by (simp add: g')
  with c' w wn g gn i run p
  show "\<exists>l r resp i lsid.
        checkExisting meta client d log = (None, l) \<and>
        CreateOrUpdate client l (resource_group_name d) (data_factory_name d) (name d)
          (linkedService meta d) [] = (r, None) \<and>
        Get client (l @ [?W])
          (resource_group_name d) (data_factory_name d) (name d) [] = (resp, None) \<and>
        ID resp = Some i \<and>
        resourceDataFactoryLinkedServiceAzureSQLDatabaseCreateUpdate meta client d log =
          resourceDataFactoryLinkedServiceAzureSQLDatabaseRead meta client (d\<lparr>rd_Id := i\<rparr>) (l @ [?W, ?G]) \<and>
        LinkedServiceID meta i = Inr lsid \<and>
        rd_Id (fst (snd (resourceDataFactoryLinkedServiceAzureSQLDatabaseCreateUpdate meta client d log))) =
          (if snd (Get client (l @ [?W, ?G])
                 (ResourceGroup lsid) (FactoryName lsid) (idName lsid) []) = None
           then i else [])"
    by blast
next
  assume c: "checkExisting meta client d log = (None, log1)"
    and w: "CreateOrUpdate client log1 (resource_group_name d) (data_factory_name d) (name d)
      (linkedService meta d) [] = (r1, None)"
    and g: "Get client
      (log1 @ [CreateOrUpdateCall (resource_group_name d) (data_factory_name d) (name d)
                 (linkedService meta d) []])
      (resource_group_name d) (data_factory_name d) (name d) [] = (resp1, None)"
    and i: "ID resp1 = None"
  have "resourceDataFactoryLinkedServiceAzureSQLDatabaseCreateUpdate meta client d log = resourceDataFactoryLinkedServiceAzureSQLDatabaseCreateUpdate_body meta client d log"
    by (rule createUpdate_failed) (simp add: body_checked [OF c w g] i)
  then show "resourceDataFactoryLinkedServiceAzureSQLDatabaseCreateUpdate meta client d log =
        (Some (Errorf fmtCannotRead
           [Str (name d), Str (data_factory_name d), Str (resource_group_name d), Verr None]),
         d,
         log1 @ [CreateOrUpdateCall (resource_group_name d) (data_factory_name d) (name d)
                   (linkedService meta d) [],
                 GetCall (resource_group_name d) (data_factory_name d) (name d) []])"
    by (simp add: body_checked [OF c w g] i)
qed

theorem createUpdate_stores_identifier_witness:
  "resourceDataFactoryLinkedServiceAzureSQLDatabaseCreateUpdate testMeta fakeClient testConfig [] =
     (None, testConfig\<lparr>rd_Id := testId\<rparr>,
      [GetCall ''rg'' ''df'' ''ls'' [],
       CreateOrUpdateCall ''rg'' ''df'' ''ls'' (linkedService testMeta testConfig) [],
       GetCall ''rg'' ''df'' ''ls'' [], GetCall ''rg'' ''df'' ''ls'' []]) \<and>
   resourceDataFactoryLinkedServiceAzureSQLDatabaseCreateUpdate testMeta vanishingClient testConfig [] =
     (None, testConfig\<lparr>rd_Id := []\<rparr>,
      [GetCall ''rg'' ''df'' ''ls'' [],
       CreateOrUpdateCall ''rg'' ''df'' ''ls'' (linkedService testMeta testConfig) [],
       GetCall ''rg'' ''df'' ''ls'' [], GetCall ''rg'' ''df'' ''ls'' []]) \<and>
   ID (fst (Get namelessClient
       [GetCall ''rg'' ''df'' ''ls'' [],
        CreateOrUpdateCall ''rg'' ''df'' ''ls'' (linkedService testMeta testConfig) []]
       ''rg'' ''df'' ''ls'' [])) = None \<and>
   resourceDataFactoryLinkedServiceAzureSQLDatabaseCreateUpdate testMeta namelessClient testConfig [] =
     (Some (Errorf fmtCannotRead [Str ''ls'', Str ''df'', Str ''rg'', Verr None]),
      testConfig,
      [GetCall ''rg'' ''df'' ''ls'' [],
       CreateOrUpdateCall ''rg'' ''df'' ''ls'' (linkedService testMeta testConfig) [],
       GetCall ''rg'' ''df'' ''ls'' []])"
  using createUpdate_stores_identifier [where meta = testMeta and d = testConfig and client = fakeClient and log = "[]"]
    createUpdate_stores_identifier [where meta = testMeta and d = testConfig and client = vanishingClient and log = "[]"]
    createUpdate_stores_identifier [where meta = testMeta and d = testConfig and client = namelessClient and log = "[]"
      and ?log1.0 = "[GetCall ''rg'' ''df'' ''ls'' []]"
      and ?r1.0 = "found (linkedService testMeta testConfig) ''ls''"
      and ?resp1.0 = "notFound\<lparr>Response := Some 200\<rparr>"]
  by (simp add: fake_run vanishing_run nameless_calls test_triple)

subsection \<open>How the remote calls are addressed\<close>

text \<open>
  Claim C9. Read and Delete make no call and return the parser's error when the
  stored identifier does not parse; otherwise each makes exactly one call, addressed
  by the resource group, factory and name parsed from the identifier. Every call
  CreateUpdate makes before its final statement is addressed by the
  \<open>resource_group_name\<close>, \<open>data_factory_name\<close> and \<open>name\<close> attributes; its final
  statement is Read on the resource data it has then, so the last call is addressed
  as Read's calls are.
\<close>

theorem calls_addressed_by_triple:
  "(case LinkedServiceID meta (rd_Id d) of
      Inl m \<Rightarrow>
        resourceDataFactoryLinkedServiceAzureSQLDatabaseRead meta client d log = (Some (External m), d, log) \<and>
        resourceDataFactoryLinkedServiceAzureSQLDatabaseDelete meta client d log = (Some (External m), d, log)
    | Inr lsid \<Rightarrow>
        snd (snd (resourceDataFactoryLinkedServiceAzureSQLDatabaseRead meta client d log)) =
          log @ [GetCall (ResourceGroup lsid) (FactoryName lsid) (idName lsid) []] \<and>
        snd (snd (resourceDataFactoryLinkedServiceAzureSQLDatabaseDelete meta client d log)) =
          log @ [DeleteCall (ResourceGroup lsid) (FactoryName lsid) (idName lsid)]) \<and>
   take (length log) (snd (snd (resourceDataFactoryLinkedServiceAzureSQLDatabaseCreateUpdate_body meta client d log))) = log \<and>
   (\<forall>c \<in> set (drop (length log) (snd (snd (resourceDataFactoryLinkedServiceAzureSQLDatabaseCreateUpdate_body meta client d log)))).
      addressed c = (resource_group_name d, data_factory_name d, name d)) \<and>
   resourceDataFactoryLinkedServiceAzureSQLDatabaseCreateUpdate meta client d log =
     (case fst (resourceDataFactoryLinkedServiceAzureSQLDatabaseCreateUpdate_body meta client d log) of
        Some e \<Rightarrow> resourceDataFactoryLinkedServiceAzureSQLDatabaseCreateUpdate_body meta client d log
      | None \<Rightarrow>
          resourceDataFactoryLinkedServiceAzureSQLDatabaseRead meta client
            (fst (snd (resourceDataFactoryLinkedServiceAzureSQLDatabaseCreateUpdate_body meta client d log)))
            (snd (snd (resourceDataFactoryLinkedServiceAzureSQLDatabaseCreateUpdate_body meta client d log))))"
proof -
  have "case LinkedServiceID meta (rd_Id d) of
      Inl m \<Rightarrow>
        resourceDataFactoryLinkedServiceAzureSQLDatabaseRead meta client d log = (Some (External m), d, log) \<and>
        resourceDataFactoryLinkedServiceAzureSQLDatabaseDelete meta client d log = (Some (External m), d, log)
    | Inr lsid \<Rightarrow>
        snd (snd (resourceDataFactoryLinkedServiceAzureSQLDatabaseRead meta client d log)) =
          log @ [GetCall (ResourceGroup lsid) (FactoryName lsid) (idName lsid) []] \<and>
        snd (snd (resourceDataFactoryLinkedServiceAzureSQLDatabaseDelete meta client d log)) =
          log @ [DeleteCall (ResourceGroup lsid) (FactoryName lsid) (idName lsid)]"
    by (cases "LinkedServiceID meta (rd_Id d)")
       (simp_all add: read_parse_error delete_parse_error read_log delete_log)
  moreover obtain calls where
    b: "snd (snd (resourceDataFactoryLinkedServiceAzureSQLDatabaseCreateUpdate_body meta client d log)) = log @ calls"
    and a: "\<forall>c \<in> set calls.
        c = GetCall (resource_group_name d) (data_factory_name d) (name d) [] \<or>
        c = CreateOrUpdateCall (resource_group_name d) (data_factory_name d) (name d)
              (linkedService meta d) []"
    using body_calls [of meta client d log] by blast
  have "\<forall>c \<in> set calls. addressed c = (resource_group_name d, data_factory_name d, name d)"
  proof
    fix c
    assume "c \<in> set calls"
    with a have "c = GetCall (resource_group_name d) (data_factory_name d) (name d) [] \<or>
        c = CreateOrUpdateCall (resource_group_name d) (data_factory_name d) (name d)
              (linkedService meta d) []"
      by blast
    then show "addressed c = (resource_group_name d, data_factory_name d, name d)"
      by (elim disjE) simp_all
  qed
  with b have "take (length log) (snd (snd (resourceDataFactoryLinkedServiceAzureSQLDatabaseCreateUpdate_body meta client d log))) = log \<and>
   (\<forall>c \<in> set (drop (length log) (snd (snd (resourceDataFactoryLinkedServiceAzureSQLDatabaseCreateUpdate_body meta client d log)))).
      addressed c = (resource_group_name d, data_factory_name d, name d))"
    by simp
  moreover have "resourceDataFactoryLinkedServiceAzureSQLDatabaseCreateUpdate meta client d log =
     (case fst (resourceDataFactoryLinkedServiceAzureSQLDatabaseCreateUpdate_body meta client d log) of
        Some e \<Rightarrow> resourceDataFactoryLinkedServiceAzureSQLDatabaseCreateUpdate_body meta client d log
      | None \<Rightarrow>
          resourceDataFactoryLinkedServiceAzureSQLDatabaseRead meta client
            (fst (snd (resourceDataFactoryLinkedServiceAzureSQLDatabaseCreateUpdate_body meta client d log)))
            (snd (snd (resourceDataFactoryLinkedServiceAzureSQLDatabaseCreateUpdate_body meta client d log))))"
    by (cases "fst (resourceDataFactoryLinkedServiceAzureSQLDatabaseCreateUpdate_body meta client d log)")
       (simp_all add: createUpdate_read createUpdate_failed)
  ultimately show ?thesis by blast
qed

theorem calls_addressed_by_triple_witness:
  "resourceDataFactoryLinkedServiceAzureSQLDatabaseRead testMeta fakeClient testConfig [] =
     (Some (External ''parsing Linked Service ID''), testConfig, []) \<and>
   resourceDataFactoryLinkedServiceAzureSQLDatabaseDelete testMeta fakeClient testConfig [] =
     (Some (External ''parsing Linked Service ID''), testConfig, []) \<and>
   snd (snd (resourceDataFactoryLinkedServiceAzureSQLDatabaseRead testMeta fakeClient (testConfig\<lparr>rd_Id := testId\<rparr>) writtenLog)) =
     writtenLog @ [GetCall ''rg'' ''df'' ''ls'' []] \<and>
   snd (snd (resourceDataFactoryLinkedServiceAzureSQLDatabaseDelete testMeta fakeClient (testConfig\<lparr>rd_Id := testId\<rparr>) writtenLog)) =
     writtenLog @ [DeleteCall ''rg'' ''df'' ''ls''] \<and>
   map addressed (snd (snd (resourceDataFactoryLinkedServiceAzureSQLDatabaseCreateUpdate_body testMeta fakeClient testConfig []))) =
     [(''rg'', ''df'', ''ls''), (''rg'', ''df'', ''ls''), (''rg'', ''df'', ''ls'')] \<and>
   resourceDataFactoryLinkedServiceAzureSQLDatabaseCreateUpdate testMeta fakeClient testConfig [] =
     resourceDataFactoryLinkedServiceAzureSQLDatabaseRead testMeta fakeClient (testConfig\<lparr>rd_Id := testId\<rparr>)
       [GetCall ''rg'' ''df'' ''ls'' [],
        CreateOrUpdateCall ''rg'' ''df'' ''ls'' (linkedService testMeta testConfig) [],
        GetCall ''rg'' ''df'' ''ls'' []]"
  using calls_addressed_by_triple [where meta = testMeta and d = testConfig and client = fakeClient and log = "[]"]
    calls_addressed_by_triple [where meta = testMeta and d = "testConfig\<lparr>rd_Id := testId\<rparr>"
      and client = fakeClient and log = writtenLog]
  by (simp add: unparsed test_parse fake_body)

end
